theory Spec2Isabelle
  imports Main "HOL-Library.Word"
begin

unbundle bit_operations_syntax

section \<open>Data model\<close>

text \<open>
  The job object wrapper of go-winjob, embedded function by function. Machine integers
  are words of the width the Go type has on the amd64 build: \<open>uintptr\<close> and
  \<open>syscall.Handle\<close> are 64 bits, \<open>int64\<close> is a 64-bit word read as two's
  complement, flags and counters are 32- and 64-bit words.
\<close>

type_synonym uintptr = "64 word"
type_synonym Handle = "64 word"

text \<open>
  Go errors as values. \<open>Errno\<close> is \<open>syscall.Errno\<close>, \<open>SyscallError\<close> is what
  \<open>os.NewSyscallError\<close> wraps around it, \<open>EINVAL\<close> is the invented
  \<open>syscall.EINVAL\<close> that \<open>syscall.UTF16PtrFromString\<close> returns for a string with a
  NUL byte (it lies outside the range of system error codes and is kept symbolic).
\<close>

datatype error = Errno uintptr | EINVAL | SyscallError string error

text \<open>\<open>job_object.go\<close>: the accounting snapshot handed to the caller.\<close>

record Counters =
  TotalUserTime :: "64 word"
  TotalKernelTime :: "64 word"
  ThisPeriodTotalUserTime :: "64 word"
  ThisPeriodTotalKernelTime :: "64 word"
  TotalPageFaultCount :: "32 word"
  TotalProcesses :: "32 word"
  ActiveProcesses :: "32 word"
  TotalTerminatedProcesses :: "32 word"
  ReadOperationCount :: "64 word"
  WriteOperationCount :: "64 word"
  OtherOperationCount :: "64 word"
  ReadTransferCount :: "64 word"
  WriteTransferCount :: "64 word"
  OtherTransferCount :: "64 word"

text \<open>
  \<open>jobapi/jobapi.go\<close>: the information blocks exchanged with the system. The records
  below declare the same field names as \<open>Counters\<close> again; from here on the short names
  denote the fields of the \<open>jobapi\<close> structures and the fields of the snapshot are
  written \<open>Counters.TotalUserTime\<close> and so on.
\<close>

record JOBOBJECT_BASIC_LIMIT_INFORMATION =
  PerProcessUserTimeLimit :: "64 word"
  PerJobUserTimeLimit :: "64 word"
  LimitFlags :: "32 word"
  MinimumWorkingSetSize :: uintptr
  MaximumWorkingSetSize :: uintptr
  ActiveProcessLimit :: "32 word"
  Affinity :: uintptr
  PriorityClass :: "32 word"
  SchedulingClass :: "32 word"

record IO_COUNTERS =
  ReadOperationCount :: "64 word"
  WriteOperationCount :: "64 word"
  OtherOperationCount :: "64 word"
  ReadTransferCount :: "64 word"
  WriteTransferCount :: "64 word"
  OtherTransferCount :: "64 word"

record JOBOBJECT_EXTENDED_LIMIT_INFORMATION =
  BasicLimitInformation :: JOBOBJECT_BASIC_LIMIT_INFORMATION
  IoInfo :: IO_COUNTERS
  ProcessMemoryLimit :: uintptr
  JobMemoryLimit :: uintptr
  PeakProcessMemoryUsed :: uintptr
  PeakJobMemoryUsed :: uintptr

record JOBOBJECT_BASIC_UI_RESTRICTIONS =
  UIRestrictionsClass :: "32 word"

record JOBOBJECT_BASIC_ACCOUNTING_INFORMATION =
  TotalUserTime :: "64 word"
  TotalKernelTime :: "64 word"
  ThisPeriodTotalUserTime :: "64 word"
  ThisPeriodTotalKernelTime :: "64 word"
  TotalPageFaultCount :: "32 word"
  TotalProcesses :: "32 word"
  ActiveProcesses :: "32 word"
  TotalTerminatedProcesses :: "32 word"

text \<open>
  Go embeds the two structures without a field name and promotes their fields; here the
  embedded parts are the fields \<open>BasicAccounting\<close> and \<open>IoCounters\<close>.
\<close>

record JOBOBJECT_BASIC_AND_IO_ACCOUNTING_INFORMATION =
  BasicAccounting :: JOBOBJECT_BASIC_ACCOUNTING_INFORMATION
  IoCounters :: IO_COUNTERS

text \<open>
  The network block also has a field \<open>ControlFlags\<close>; it is declared first, so that the
  short name is the one of the CPU block and the network one is written
  \<open>JOBOBJECT_NET_RATE_CONTROL_INFORMATION.ControlFlags\<close>.
\<close>

record JOBOBJECT_NET_RATE_CONTROL_INFORMATION =
  MaxBandwidth :: "64 word"
  ControlFlags :: "32 word"
  DscpTag :: "8 word"

record JOBOBJECT_CPU_RATE_CONTROL_INFORMATION =
  ControlFlags :: "32 word"
  Value :: "32 word"

record JobInfo =
  ExtendedLimits :: JOBOBJECT_EXTENDED_LIMIT_INFORMATION
  UIRestrictions :: JOBOBJECT_BASIC_UI_RESTRICTIONS
  AccountingInfo :: JOBOBJECT_BASIC_AND_IO_ACCOUNTING_INFORMATION
  CPURateControl :: JOBOBJECT_CPU_RATE_CONTROL_INFORMATION
  NetRateControl :: JOBOBJECT_NET_RATE_CONTROL_INFORMATION

text \<open>\<open>JobObject\<close> embeds \<open>JobInfo\<close>; the embedded part is the field \<open>JobInfo\<close>.\<close>

record JobObject =
  Name :: string
  Handle :: Handle
  JobInfo :: JobInfo

text \<open>The zero values of the structures (\<open>JobInfo{}\<close>, a fresh \<open>JobObject\<close>).\<close>

definition zero_IO_COUNTERS :: IO_COUNTERS where
  "zero_IO_COUNTERS =
     \<lparr>ReadOperationCount = 0, WriteOperationCount = 0, OtherOperationCount = 0,
      ReadTransferCount = 0, WriteTransferCount = 0, OtherTransferCount = 0\<rparr>"

definition zero_ExtendedLimits :: JOBOBJECT_EXTENDED_LIMIT_INFORMATION where
  "zero_ExtendedLimits =
     \<lparr>BasicLimitInformation =
        \<lparr>PerProcessUserTimeLimit = 0, PerJobUserTimeLimit = 0, LimitFlags = 0,
         MinimumWorkingSetSize = 0, MaximumWorkingSetSize = 0, ActiveProcessLimit = 0,
         Affinity = 0, PriorityClass = 0, SchedulingClass = 0\<rparr>,
      IoInfo = zero_IO_COUNTERS,
      ProcessMemoryLimit = 0, JobMemoryLimit = 0,
      PeakProcessMemoryUsed = 0, PeakJobMemoryUsed = 0\<rparr>"

definition zero_AccountingInfo :: JOBOBJECT_BASIC_AND_IO_ACCOUNTING_INFORMATION where
  "zero_AccountingInfo =
     \<lparr>BasicAccounting =
        \<lparr>TotalUserTime = 0, TotalKernelTime = 0, ThisPeriodTotalUserTime = 0,
         ThisPeriodTotalKernelTime = 0, TotalPageFaultCount = 0, TotalProcesses = 0,
         ActiveProcesses = 0, TotalTerminatedProcesses = 0\<rparr>,
      IoCounters = zero_IO_COUNTERS\<rparr>"

definition zero_JobInfo :: JobInfo where
  "zero_JobInfo =
     \<lparr>ExtendedLimits = zero_ExtendedLimits,
      UIRestrictions = \<lparr>UIRestrictionsClass = 0\<rparr>,
      AccountingInfo = zero_AccountingInfo,
      CPURateControl = \<lparr>ControlFlags = 0, Value = 0\<rparr>,
      NetRateControl =
        \<lparr>MaxBandwidth = 0, JOBOBJECT_NET_RATE_CONTROL_INFORMATION.ControlFlags = 0,
         DscpTag = 0\<rparr>\<rparr>"

definition zero_Counters :: Counters where
  "zero_Counters =
     \<lparr>Counters.TotalUserTime = 0, Counters.TotalKernelTime = 0,
      Counters.ThisPeriodTotalUserTime = 0, Counters.ThisPeriodTotalKernelTime = 0,
      Counters.TotalPageFaultCount = 0, Counters.TotalProcesses = 0,
      Counters.ActiveProcesses = 0, Counters.TotalTerminatedProcesses = 0,
      Counters.ReadOperationCount = 0, Counters.WriteOperationCount = 0,
      Counters.OtherOperationCount = 0, Counters.ReadTransferCount = 0,
      Counters.WriteTransferCount = 0, Counters.OtherTransferCount = 0\<rparr>"

subsection \<open>Constants of \<open>jobapi\<close>\<close>

text \<open>Limit flags (\<open>1 << iota\<close>, in the order of the declaration).\<close>

definition JOB_OBJECT_LIMIT_WORKINGSET :: "32 word" where
  "JOB_OBJECT_LIMIT_WORKINGSET = 0x1"
definition JOB_OBJECT_LIMIT_PROCESS_TIME :: "32 word" where
  "JOB_OBJECT_LIMIT_PROCESS_TIME = 0x2"
definition JOB_OBJECT_LIMIT_JOB_TIME :: "32 word" where
  "JOB_OBJECT_LIMIT_JOB_TIME = 0x4"
definition JOB_OBJECT_LIMIT_ACTIVE_PROCESS :: "32 word" where
  "JOB_OBJECT_LIMIT_ACTIVE_PROCESS = 0x8"
definition JOB_OBJECT_LIMIT_AFFINITY :: "32 word" where
  "JOB_OBJECT_LIMIT_AFFINITY = 0x10"
definition JOB_OBJECT_LIMIT_PRIORITY_CLASS :: "32 word" where
  "JOB_OBJECT_LIMIT_PRIORITY_CLASS = 0x20"
definition JOB_OBJECT_LIMIT_PRESERVE_JOB_TIME :: "32 word" where
  "JOB_OBJECT_LIMIT_PRESERVE_JOB_TIME = 0x40"
definition JOB_OBJECT_LIMIT_SCHEDULING_CLASS :: "32 word" where
  "JOB_OBJECT_LIMIT_SCHEDULING_CLASS = 0x80"
definition JOB_OBJECT_LIMIT_PROCESS_MEMORY :: "32 word" where
  "JOB_OBJECT_LIMIT_PROCESS_MEMORY = 0x100"
definition JOB_OBJECT_LIMIT_JOB_MEMORY :: "32 word" where
  "JOB_OBJECT_LIMIT_JOB_MEMORY = 0x200"
definition JOB_OBJECT_LIMIT_DIE_ON_UNHANDLED_EXCEPTION :: "32 word" where
  "JOB_OBJECT_LIMIT_DIE_ON_UNHANDLED_EXCEPTION = 0x400"
definition JOB_OBJECT_LIMIT_BREAKAWAY_OK :: "32 word" where
  "JOB_OBJECT_LIMIT_BREAKAWAY_OK = 0x800"
definition JOB_OBJECT_LIMIT_SILENT_BREAKAWAY_OK :: "32 word" where
  "JOB_OBJECT_LIMIT_SILENT_BREAKAWAY_OK = 0x1000"
definition JOB_OBJECT_LIMIT_KILL_ON_JOB_CLOSE :: "32 word" where
  "JOB_OBJECT_LIMIT_KILL_ON_JOB_CLOSE = 0x2000"
definition JOB_OBJECT_LIMIT_SUBSET_AFFINITY :: "32 word" where
  "JOB_OBJECT_LIMIT_SUBSET_AFFINITY = 0x4000"

definition JOB_OBJECT_UILIMIT_DESKTOP :: "32 word" where
  "JOB_OBJECT_UILIMIT_DESKTOP = 0x40"

text \<open>CPU rate control flags.\<close>

definition JOB_OBJECT_CPU_RATE_CONTROL_ENABLE :: "32 word" where
  "JOB_OBJECT_CPU_RATE_CONTROL_ENABLE = 0x1"
definition JOB_OBJECT_CPU_RATE_CONTROL_WEIGHT_BASED :: "32 word" where
  "JOB_OBJECT_CPU_RATE_CONTROL_WEIGHT_BASED = 0x2"
definition JOB_OBJECT_CPU_RATE_CONTROL_HARD_CAP :: "32 word" where
  "JOB_OBJECT_CPU_RATE_CONTROL_HARD_CAP = 0x4"
definition JOB_OBJECT_CPU_RATE_CONTROL_NOTIFY :: "32 word" where
  "JOB_OBJECT_CPU_RATE_CONTROL_NOTIFY = 0x8"
definition JOB_OBJECT_CPU_RATE_CONTROL_MIN_MAX_RATE :: "32 word" where
  "JOB_OBJECT_CPU_RATE_CONTROL_MIN_MAX_RATE = 0x10"

text \<open>\<open>ERROR_ABANDONED_WAIT_0\<close>.\<close>

definition ErrAbandoned :: error where
  "ErrAbandoned = Errno 0x2df"

section \<open>Limits\<close>

text \<open>
  \<open>limits_cpu.go\<close>: the CPU rate. The Go fields \<open>Min\<close> and \<open>Max\<close> are named
  \<open>RateMin\<close> and \<open>RateMax\<close> here (\<open>Min\<close> and \<open>Max\<close> are constants of HOL); likewise the parameter
  \<open>set\<close> of \<open>applyLimit\<close> is \<open>set'\<close>.
\<close>

record CPURate =
  RateMin :: "16 word"
  RateMax :: "16 word"
  Weight :: "32 word"
  HardCap :: "32 word"

definition zero_CPURate :: CPURate where
  "zero_CPURate = \<lparr>RateMin = 0, RateMax = 0, Weight = 0, HardCap = 0\<rparr>"

text \<open>
  The closed set of limit types. Each constructor carries what the Go type holds: the
  types that embed \<open>basicLimit\<close> carry its flag first, then their value. The two network
  limits carry their value (\<open>uint64\<close> and \<open>byte\<close>, as the tests use them).
\<close>

datatype Limit =
    basicLimit "32 word"
  | affinityLimit "32 word" uintptr
  | jobMemoryLimit "32 word" uintptr
  | jobTimeLimit "32 word" "64 word"
  | processMemoryLimit "32 word" uintptr
  | processTimeLimit "32 word" "64 word"
  | activeProcessLimit "32 word" "32 word"
  | workingSetLimit "32 word" uintptr uintptr
  | priorityClassLimit "32 word" "32 word"
  | schedulingClassLimit "32 word" "32 word"
  | uiRestriction "32 word"
  | cpuLimit CPURate
  | netBandwidthLimit "64 word"
  | netDSCPTagLimit "8 word"

subsection \<open>\<open>limits.go\<close>: flags of the extended limit block\<close>

definition basicLimit_set :: "32 word \<Rightarrow> JobObject \<Rightarrow> JobObject" where
  "basicLimit_set l =
     JobInfo_update (ExtendedLimits_update (BasicLimitInformation_update
       (LimitFlags_update (\<lambda>f. f OR l))))"

definition basicLimit_reset :: "32 word \<Rightarrow> JobObject \<Rightarrow> JobObject" where
  "basicLimit_reset l =
     JobInfo_update (ExtendedLimits_update (BasicLimitInformation_update
       (LimitFlags_update (\<lambda>f. f AND NOT l))))"


definition LimitBreakawayOK :: Limit where
  "LimitBreakawayOK = basicLimit JOB_OBJECT_LIMIT_BREAKAWAY_OK"
definition LimitDieOnUnhandledException :: Limit where
  "LimitDieOnUnhandledException = basicLimit JOB_OBJECT_LIMIT_DIE_ON_UNHANDLED_EXCEPTION"
definition LimitKillOnJobClose :: Limit where
  "LimitKillOnJobClose = basicLimit JOB_OBJECT_LIMIT_KILL_ON_JOB_CLOSE"
definition LimitPreserveJobTime :: Limit where
  "LimitPreserveJobTime = basicLimit JOB_OBJECT_LIMIT_PRESERVE_JOB_TIME"
definition LimitSubsetAffinity :: Limit where
  "LimitSubsetAffinity = basicLimit JOB_OBJECT_LIMIT_SUBSET_AFFINITY"
definition LimitSilentBreakawayOK :: Limit where
  "LimitSilentBreakawayOK = basicLimit JOB_OBJECT_LIMIT_SILENT_BREAKAWAY_OK"


subsection \<open>\<open>limits_ui.go\<close>: user-interface restrictions\<close>

definition uiRestriction_set :: "32 word \<Rightarrow> JobObject \<Rightarrow> JobObject" where
  "uiRestriction_set r =
     JobInfo_update (UIRestrictions_update (UIRestrictionsClass_update (\<lambda>f. f OR r)))"

definition uiRestriction_reset :: "32 word \<Rightarrow> JobObject \<Rightarrow> JobObject" where
  "uiRestriction_reset r =
     JobInfo_update (UIRestrictions_update (UIRestrictionsClass_update (\<lambda>f. f AND NOT r)))"



subsection \<open>\<open>limits_cpu.go\<close>: the CPU rate\<close>

text \<open>
  \<open>encoding/binary\<close>, little endian. The buffers of \<open>cpuLimit.set\<close> and
  \<open>cpuLimit.LimitValue\<close> hold exactly four bytes, so they are four values here and
  no read can run past the end.
\<close>

definition PutUint16 :: "16 word \<Rightarrow> 8 word \<times> 8 word" where
  "PutUint16 v = (ucast v, ucast (drop_bit 8 v))"

definition PutUint32 :: "32 word \<Rightarrow> 8 word \<times> 8 word \<times> 8 word \<times> 8 word" where
  "PutUint32 v = (ucast v, ucast (drop_bit 8 v), ucast (drop_bit 16 v), ucast (drop_bit 24 v))"

definition Uint16 :: "8 word \<Rightarrow> 8 word \<Rightarrow> 16 word" where
  "Uint16 b0 b1 = ucast b0 OR push_bit 8 (ucast b1)"

definition Uint32 :: "8 word \<Rightarrow> 8 word \<Rightarrow> 8 word \<Rightarrow> 8 word \<Rightarrow> 32 word" where
  "Uint32 b0 b1 b2 b3 =
     ucast b0 OR push_bit 8 (ucast b1) OR push_bit 16 (ucast b2) OR push_bit 24 (ucast b3)"

definition WithCPUHardCapLimit :: "32 word \<Rightarrow> Limit" where
  "WithCPUHardCapLimit v = cpuLimit (zero_CPURate\<lparr>HardCap := v\<rparr>)"

definition WithCPUWeightedLimit :: "32 word \<Rightarrow> Limit" where
  "WithCPUWeightedLimit v = cpuLimit (zero_CPURate\<lparr>Weight := v\<rparr>)"

definition WithCPUMinMaxLimit :: "16 word \<Rightarrow> 16 word \<Rightarrow> Limit" where
  "WithCPUMinMaxLimit mn mx = cpuLimit (zero_CPURate\<lparr>RateMin := mn, RateMax := mx\<rparr>)"

definition cpuLimit_reset :: "CPURate \<Rightarrow> JobObject \<Rightarrow> JobObject" where
  "cpuLimit_reset l = JobInfo_update (CPURateControl_update (ControlFlags_update (\<lambda>_. 0)))"


definition cpuLimit_LimitValue :: "CPURate \<Rightarrow> JobObject \<Rightarrow> CPURate" where
  "cpuLimit_LimitValue l job =
     (let c = CPURateControl (JobInfo job); r = zero_CPURate in
      if ControlFlags c AND JOB_OBJECT_CPU_RATE_CONTROL_HARD_CAP > 0
        then r\<lparr>HardCap := Value c\<rparr>
      else if ControlFlags c AND JOB_OBJECT_CPU_RATE_CONTROL_WEIGHT_BASED > 0
        then r\<lparr>Weight := Value c\<rparr>
      else if ControlFlags c AND JOB_OBJECT_CPU_RATE_CONTROL_MIN_MAX_RATE > 0
        then (case PutUint32 (Value c) of
                (b0, b1, b2, b3) \<Rightarrow> r\<lparr>RateMin := Uint16 b0 b1, RateMax := Uint16 b2 b3\<rparr>)
      else r)"

text \<open>
  \<open>cpuLimit.set\<close>: the \<open>switch\<close> has no default, so with all three values zero the
  flag \<open>f\<close> stays 0 and \<open>Value\<close> is left as it was.
\<close>

definition cpuLimit_set :: "CPURate \<Rightarrow> JobObject \<Rightarrow> JobObject" where
  "cpuLimit_set l job =
     (let (v, f) =
        (if HardCap l > 0 then (HardCap l, JOB_OBJECT_CPU_RATE_CONTROL_HARD_CAP)
         else if Weight l > 0 then (Weight l, JOB_OBJECT_CPU_RATE_CONTROL_WEIGHT_BASED)
         else if RateMax l > 0 then
           (case (PutUint16 (RateMin l), PutUint16 (RateMax l)) of
              ((a0, a1), (b0, b1)) \<Rightarrow>
                (Uint32 a0 a1 b0 b1, JOB_OBJECT_CPU_RATE_CONTROL_MIN_MAX_RATE))
         else (Value (CPURateControl (JobInfo job)), 0))
      in JobInfo_update (CPURateControl_update (\<lambda>c.
           c\<lparr>Value := v,
             ControlFlags := f OR JOB_OBJECT_CPU_RATE_CONTROL_ENABLE
                               OR JOB_OBJECT_CPU_RATE_CONTROL_NOTIFY\<rparr>)) job)"

subsection \<open>The network limits\<close>

text \<open>
  Modelled from the spec: the file that declares \<open>netBandwidthLimit\<close> and
  \<open>netDSCPTagLimit\<close> is not among the sources. The spec says of them only that they
  are independently settable bits of the network-rate control block, so their \<open>set\<close>,
  \<open>reset\<close> and \<open>IsSet\<close> are parameters here: any functions on that block. Every
  result below holds for all of them.
\<close>

record netLimitMethods =
  netBandwidthLimit_set :: "64 word \<Rightarrow> JOBOBJECT_NET_RATE_CONTROL_INFORMATION
                              \<Rightarrow> JOBOBJECT_NET_RATE_CONTROL_INFORMATION"
  netBandwidthLimit_reset :: "64 word \<Rightarrow> JOBOBJECT_NET_RATE_CONTROL_INFORMATION
                              \<Rightarrow> JOBOBJECT_NET_RATE_CONTROL_INFORMATION"
  netDSCPTagLimit_set :: "8 word \<Rightarrow> JOBOBJECT_NET_RATE_CONTROL_INFORMATION
                              \<Rightarrow> JOBOBJECT_NET_RATE_CONTROL_INFORMATION"
  netDSCPTagLimit_reset :: "8 word \<Rightarrow> JOBOBJECT_NET_RATE_CONTROL_INFORMATION
                              \<Rightarrow> JOBOBJECT_NET_RATE_CONTROL_INFORMATION"
  netBandwidthLimit_IsSet :: "64 word \<Rightarrow> JOBOBJECT_NET_RATE_CONTROL_INFORMATION \<Rightarrow> bool"
  netDSCPTagLimit_IsSet :: "8 word \<Rightarrow> JOBOBJECT_NET_RATE_CONTROL_INFORMATION \<Rightarrow> bool"

subsection \<open>The methods \<open>set\<close>, \<open>reset\<close> and \<open>IsSet\<close> of the interface \<open>Limit\<close>\<close>

text \<open>
  Dynamic dispatch on the limit's type. A type that embeds \<open>basicLimit\<close> stores its
  value and then calls \<open>basicLimit.set\<close>; its \<open>reset\<close> and \<open>IsSet\<close> are the
  promoted methods of \<open>basicLimit\<close>.
\<close>

fun Limit_set :: "netLimitMethods \<Rightarrow> Limit \<Rightarrow> JobObject \<Rightarrow> JobObject" where
  "Limit_set nl (basicLimit l) job = basicLimit_set l job"
| "Limit_set nl (affinityLimit l x) job =
     basicLimit_set l (JobInfo_update (ExtendedLimits_update (BasicLimitInformation_update
       (Affinity_update (\<lambda>_. x)))) job)"
| "Limit_set nl (jobMemoryLimit l x) job =
     basicLimit_set l (JobInfo_update (ExtendedLimits_update
       (JobMemoryLimit_update (\<lambda>_. x))) job)"
| "Limit_set nl (jobTimeLimit l x) job =
     basicLimit_set l (JobInfo_update (ExtendedLimits_update (BasicLimitInformation_update
       (PerJobUserTimeLimit_update (\<lambda>_. x)))) job)"
| "Limit_set nl (processMemoryLimit l x) job =
     basicLimit_set l (JobInfo_update (ExtendedLimits_update
       (ProcessMemoryLimit_update (\<lambda>_. x))) job)"
| "Limit_set nl (processTimeLimit l x) job =
     basicLimit_set l (JobInfo_update (ExtendedLimits_update (BasicLimitInformation_update
       (PerProcessUserTimeLimit_update (\<lambda>_. x)))) job)"
| "Limit_set nl (activeProcessLimit l x) job =
     basicLimit_set l (JobInfo_update (ExtendedLimits_update (BasicLimitInformation_update
       (ActiveProcessLimit_update (\<lambda>_. x)))) job)"
| "Limit_set nl (workingSetLimit l mn mx) job =
     basicLimit_set l (JobInfo_update (ExtendedLimits_update (BasicLimitInformation_update
       (\<lambda>b. b\<lparr>MinimumWorkingSetSize := mn, MaximumWorkingSetSize := mx\<rparr>))) job)"
| "Limit_set nl (priorityClassLimit l x) job =
     basicLimit_set l (JobInfo_update (ExtendedLimits_update (BasicLimitInformation_update
       (PriorityClass_update (\<lambda>_. x)))) job)"
| "Limit_set nl (schedulingClassLimit l x) job =
     basicLimit_set l (JobInfo_update (ExtendedLimits_update (BasicLimitInformation_update
       (SchedulingClass_update (\<lambda>_. x)))) job)"
| "Limit_set nl (uiRestriction r) job = uiRestriction_set r job"
| "Limit_set nl (cpuLimit l) job = cpuLimit_set l job"
| "Limit_set nl (netBandwidthLimit x) job =
     JobInfo_update (NetRateControl_update (netBandwidthLimit_set nl x)) job"
| "Limit_set nl (netDSCPTagLimit x) job =
     JobInfo_update (NetRateControl_update (netDSCPTagLimit_set nl x)) job"

fun Limit_reset :: "netLimitMethods \<Rightarrow> Limit \<Rightarrow> JobObject \<Rightarrow> JobObject" where
  "Limit_reset nl (basicLimit l) job = basicLimit_reset l job"
| "Limit_reset nl (affinityLimit l x) job = basicLimit_reset l job"
| "Limit_reset nl (jobMemoryLimit l x) job = basicLimit_reset l job"
| "Limit_reset nl (jobTimeLimit l x) job = basicLimit_reset l job"
| "Limit_reset nl (processMemoryLimit l x) job = basicLimit_reset l job"
| "Limit_reset nl (processTimeLimit l x) job = basicLimit_reset l job"
| "Limit_reset nl (activeProcessLimit l x) job = basicLimit_reset l job"
| "Limit_reset nl (workingSetLimit l mn mx) job = basicLimit_reset l job"
| "Limit_reset nl (priorityClassLimit l x) job = basicLimit_reset l job"
| "Limit_reset nl (schedulingClassLimit l x) job = basicLimit_reset l job"
| "Limit_reset nl (uiRestriction r) job = uiRestriction_reset r job"
| "Limit_reset nl (cpuLimit l) job = cpuLimit_reset l job"
| "Limit_reset nl (netBandwidthLimit x) job =
     JobInfo_update (NetRateControl_update (netBandwidthLimit_reset nl x)) job"
| "Limit_reset nl (netDSCPTagLimit x) job =
     JobInfo_update (NetRateControl_update (netDSCPTagLimit_reset nl x)) job"


section \<open>The job object\<close>

subsection \<open>Information classes and blocks\<close>

text \<open>
  \<open>JobObjectInformationClass\<close> is a \<open>uint32\<close> with some fifty named values; the
  wrapper passes only the five below, the ones \<open>infoPtr\<close> has a case for.
\<close>

datatype info_class =
    JobObjectBasicAndIoAccountingInformation
  | JobObjectExtendedLimitInformation
  | JobObjectBasicUIRestrictions
  | JobObjectCpuRateControlInformation
  | JobObjectNetRateControlInformation

text \<open>
  What the \<open>interface{}\<close> returned by \<open>infoPtr\<close> points to: one of the five blocks,
  tagged with its type.
\<close>

datatype info_block =
    AccountingBlock JOBOBJECT_BASIC_AND_IO_ACCOUNTING_INFORMATION
  | ExtendedBlock JOBOBJECT_EXTENDED_LIMIT_INFORMATION
  | UIBlock JOBOBJECT_BASIC_UI_RESTRICTIONS
  | CPUBlock JOBOBJECT_CPU_RATE_CONTROL_INFORMATION
  | NetBlock JOBOBJECT_NET_RATE_CONTROL_INFORMATION

fun block_class :: "info_block \<Rightarrow> info_class" where
  "block_class (AccountingBlock _) = JobObjectBasicAndIoAccountingInformation"
| "block_class (ExtendedBlock _) = JobObjectExtendedLimitInformation"
| "block_class (UIBlock _) = JobObjectBasicUIRestrictions"
| "block_class (CPUBlock _) = JobObjectCpuRateControlInformation"
| "block_class (NetBlock _) = JobObjectNetRateControlInformation"

text \<open>
  \<open>infoPtr\<close> gives a pointer into the cached \<open>JobInfo\<close>. A pointer is modelled by
  what can be done through it: \<open>infoPtr_read\<close> reads the block it points to,
  \<open>infoPtr_write\<close> overwrites that block. A write through the pointer of one class
  cannot reach another field, so a block of another type is not stored.
\<close>

fun infoPtr_read :: "info_class \<Rightarrow> JobInfo \<Rightarrow> info_block" where
  "infoPtr_read JobObjectBasicAndIoAccountingInformation ji = AccountingBlock (AccountingInfo ji)"
| "infoPtr_read JobObjectExtendedLimitInformation ji = ExtendedBlock (ExtendedLimits ji)"
| "infoPtr_read JobObjectBasicUIRestrictions ji = UIBlock (UIRestrictions ji)"
| "infoPtr_read JobObjectCpuRateControlInformation ji = CPUBlock (CPURateControl ji)"
| "infoPtr_read JobObjectNetRateControlInformation ji = NetBlock (NetRateControl ji)"

fun infoPtr_write :: "info_class \<Rightarrow> info_block \<Rightarrow> JobInfo \<Rightarrow> JobInfo" where
  "infoPtr_write JobObjectBasicAndIoAccountingInformation (AccountingBlock b) ji =
     ji\<lparr>AccountingInfo := b\<rparr>"
| "infoPtr_write JobObjectExtendedLimitInformation (ExtendedBlock b) ji =
     ji\<lparr>ExtendedLimits := b\<rparr>"
| "infoPtr_write JobObjectBasicUIRestrictions (UIBlock b) ji = ji\<lparr>UIRestrictions := b\<rparr>"
| "infoPtr_write JobObjectCpuRateControlInformation (CPUBlock b) ji =
     ji\<lparr>CPURateControl := b\<rparr>"
| "infoPtr_write JobObjectNetRateControlInformation (NetBlock b) ji =
     ji\<lparr>NetRateControl := b\<rparr>"
| "infoPtr_write _ _ ji = ji"

subsection \<open>The operating system\<close>

text \<open>
  The system is outside the repository. It is a state \<open>'w\<close> and the calls the wrapper
  makes on it, each returning its result and the next state: creating a job gives a
  handle or the last error, a query gives a block or the last error, a write-back and
  a close give an error or nothing. The results below hold for every such system
  unless they say otherwise.
\<close>

record 'w os_api =
  createJobObject :: "'w \<Rightarrow> string \<Rightarrow> (uintptr + Handle) \<times> 'w"
  queryInformationJobObject :: "'w \<Rightarrow> Handle \<Rightarrow> info_class \<Rightarrow> (uintptr + info_block) \<times> 'w"
  setInformationJobObject :: "'w \<Rightarrow> Handle \<Rightarrow> info_class \<Rightarrow> info_block \<Rightarrow> uintptr option \<times> 'w"
  CloseHandle :: "'w \<Rightarrow> Handle \<Rightarrow> error option \<times> 'w"

text \<open>
  \<open>jobapi.CreateJobObject\<close>: the name is converted first (\<open>EINVAL\<close> when it holds a
  NUL byte, before any system call); a failed call is wrapped by
  \<open>os.NewSyscallError\<close>.
\<close>

definition CreateJobObject :: "'w os_api \<Rightarrow> 'w \<Rightarrow> string \<Rightarrow> (error + Handle) \<times> 'w" where
  "CreateJobObject os w jobName =
     (if CHR 0x00 \<in> set jobName then (Inl EINVAL, w)
      else case createJobObject os w jobName of
             (Inl lastErr, w') \<Rightarrow> (Inl (SyscallError ''CreateJobObject'' (Errno lastErr)), w')
           | (Inr h, w') \<Rightarrow> (Inr h, w'))"

text \<open>
  \<open>infoClassSync\<close> is the type of the function \<open>sync\<close> is given. Only
  \<open>jobapi.QueryInfo\<close> and \<open>jobapi.SetInfo\<close> are ever passed, so the function value
  is one of two names and \<open>infoClassSync_call\<close> applies it: to the handle, the class
  and the block behind the pointer, giving the error, the block as the call leaves it
  and the next state of the system.
\<close>

datatype infoClassSync = QueryInfo | SetInfo

fun infoClassSync_call ::
  "'w os_api \<Rightarrow> infoClassSync \<Rightarrow> 'w \<Rightarrow> Handle \<Rightarrow> info_class \<Rightarrow> info_block
     \<Rightarrow> error option \<times> info_block \<times> 'w" where
  "infoClassSync_call os QueryInfo w h c v =
     (case queryInformationJobObject os w h c of
        (Inl lastErr, w') \<Rightarrow>
          (Some (SyscallError ''QueryInformationJobObject'' (Errno lastErr)), v, w')
      | (Inr b, w') \<Rightarrow> (None, b, w'))"
| "infoClassSync_call os SetInfo w h c v =
     (case setInformationJobObject os w h c v of
        (Some lastErr, w') \<Rightarrow>
          (Some (SyscallError ''SetInformationJobObject'' (Errno lastErr)), v, w')
      | (None, w') \<Rightarrow> (None, v, w'))"

subsection \<open>The state of a run, with the log of what was done\<close>

text \<open>
  The log records, in order, every call to the system and every merge of a limit into
  the cache. It is not part of the Go program: it is there so that the order and the
  number of the calls can be stated.
\<close>

datatype event =
    CreateCall string
  | CloseCall Handle
  | Sync infoClassSync info_class
  | Merge bool Limit

record 'w sys =
  job :: JobObject
  world :: 'w
  log :: "event list"

subsection \<open>\<open>job_object.go\<close>\<close>

text \<open>
  \<open>sync\<close>: one call per class, in order, stopping at the first error. The call works
  through the pointer \<open>infoPtr\<close> gives, so the block it leaves is the cached one.
\<close>

fun sync :: "'w os_api \<Rightarrow> infoClassSync \<Rightarrow> info_class list \<Rightarrow> 'w sys \<Rightarrow> error option \<times> 'w sys" where
  "sync os fn [] s = (None, s)"
| "sync os fn (infoClass # infoClasses) s =
     (case infoClassSync_call os fn (world s) (Handle (job s)) infoClass
             (infoPtr_read infoClass (JobInfo (job s))) of
        (err, b, w') \<Rightarrow>
          (let s' = s\<lparr>job := JobInfo_update (infoPtr_write infoClass b) (job s),
                      world := w', log := log s @ [Sync fn infoClass]\<rparr>
           in case err of
                Some e \<Rightarrow> (Some e, s')
              | None \<Rightarrow> sync os fn infoClasses s'))"

definition JobObject_Close :: "'w os_api \<Rightarrow> 'w sys \<Rightarrow> error option \<times> 'w sys" where
  "JobObject_Close os s =
     (case CloseHandle os (world s) (Handle (job s)) of
        (err, w') \<Rightarrow> (err, s\<lparr>world := w', log := log s @ [CloseCall (Handle (job s))]\<rparr>))"

definition resolveRequiredInfoClass :: "Limit \<Rightarrow> info_class" where
  "resolveRequiredInfoClass limit =
     (case limit of
        uiRestriction _ \<Rightarrow> JobObjectBasicUIRestrictions
      | cpuLimit _ \<Rightarrow> JobObjectCpuRateControlInformation
      | netBandwidthLimit _ \<Rightarrow> JobObjectNetRateControlInformation
      | netDSCPTagLimit _ \<Rightarrow> JobObjectNetRateControlInformation
      | _ \<Rightarrow> JobObjectExtendedLimitInformation)"

text \<open>\<open>limit.set(job)\<close> or \<open>limit.reset(job)\<close>, written to the log.\<close>

definition merge_limit :: "netLimitMethods \<Rightarrow> bool \<Rightarrow> Limit \<Rightarrow> 'w sys \<Rightarrow> 'w sys" where
  "merge_limit nl set' limit s =
     s\<lparr>job := (if set' then Limit_set nl limit (job s) else Limit_reset nl limit (job s)),
       log := log s @ [Merge set' limit]\<rparr>"

text \<open>
  The first loop of \<open>applyLimit\<close>. \<open>classesSet\<close> is the Go map used as a set; the
  loop returns it with the error and the state.
\<close>

fun applyLimit_loop ::
  "'w os_api \<Rightarrow> netLimitMethods \<Rightarrow> bool \<Rightarrow> Limit list \<Rightarrow> info_class set \<Rightarrow> 'w sys
     \<Rightarrow> error option \<times> info_class set \<times> 'w sys" where
  "applyLimit_loop os nl set' [] classesSet s = (None, classesSet, s)"
| "applyLimit_loop os nl set' (limit # limits) classesSet s =
     (let infoClass = resolveRequiredInfoClass limit in
      if infoClass \<notin> classesSet then
        (case sync os QueryInfo [infoClass] s of
           (Some err, s') \<Rightarrow> (Some err, classesSet, s')
         | (None, s') \<Rightarrow>
             applyLimit_loop os nl set' limits (insert infoClass classesSet)
               (merge_limit nl set' limit s'))
      else applyLimit_loop os nl set' limits (insert infoClass classesSet)
             (merge_limit nl set' limit s))"

text \<open>
  \<open>for k := range classesSet\<close>: Go visits every key of a map once, in an order it does
  not specify. The order is the parameter \<open>order\<close>: the keys are visited as they
  first occur in \<open>order\<close>, and the keys \<open>order\<close> does not mention after them, as
  declared. Every enumeration of the keys without repetition is \<open>map_range order\<close> for
  some \<open>order\<close> (the enumeration itself), and every \<open>order\<close> gives one.
\<close>

definition all_info_classes :: "info_class list" where
  "all_info_classes =
     [JobObjectBasicAndIoAccountingInformation, JobObjectExtendedLimitInformation,
      JobObjectBasicUIRestrictions, JobObjectCpuRateControlInformation,
      JobObjectNetRateControlInformation]"

definition map_range :: "info_class list \<Rightarrow> info_class set \<Rightarrow> info_class list" where
  "map_range order classesSet =
     remdups (filter (\<lambda>k. k \<in> classesSet) order) @
     filter (\<lambda>k. k \<in> classesSet \<and> k \<notin> set order) all_info_classes"

definition applyLimit ::
  "'w os_api \<Rightarrow> netLimitMethods \<Rightarrow> info_class list \<Rightarrow> bool \<Rightarrow> Limit list \<Rightarrow> 'w sys
     \<Rightarrow> error option \<times> 'w sys" where
  "applyLimit os nl order set' limits s =
     (case applyLimit_loop os nl set' limits {} s of
        (Some err, classesSet, s') \<Rightarrow> (Some err, s')
      | (None, classesSet, s') \<Rightarrow> sync os SetInfo (map_range order classesSet) s')"

definition SetLimit ::
  "'w os_api \<Rightarrow> netLimitMethods \<Rightarrow> info_class list \<Rightarrow> Limit list \<Rightarrow> 'w sys
     \<Rightarrow> error option \<times> 'w sys" where
  "SetLimit os nl order limits s = applyLimit os nl order True limits s"

definition ResetLimit ::
  "'w os_api \<Rightarrow> netLimitMethods \<Rightarrow> info_class list \<Rightarrow> Limit list \<Rightarrow> 'w sys
     \<Rightarrow> error option \<times> 'w sys" where
  "ResetLimit os nl order limits s = applyLimit os nl order False limits s"

definition QueryLimits :: "'w os_api \<Rightarrow> 'w sys \<Rightarrow> error option \<times> 'w sys" where
  "QueryLimits os s =
     sync os QueryInfo
       [JobObjectExtendedLimitInformation, JobObjectBasicUIRestrictions,
        JobObjectCpuRateControlInformation, JobObjectNetRateControlInformation] s"

definition limitInfoClassesSet :: "JobObject \<Rightarrow> info_class list" where
  "limitInfoClassesSet j =
     map snd (filter fst
       [(LimitFlags (BasicLimitInformation (ExtendedLimits (JobInfo j))) > 0,
           JobObjectExtendedLimitInformation),
        (UIRestrictionsClass (UIRestrictions (JobInfo j)) > 0,
           JobObjectBasicUIRestrictions),
        (ControlFlags (CPURateControl (JobInfo j)) > 0,
           JobObjectCpuRateControlInformation),
        (JOBOBJECT_NET_RATE_CONTROL_INFORMATION.ControlFlags (NetRateControl (JobInfo j)) > 0,
           JobObjectNetRateControlInformation)])"

definition HasLimits :: "'w os_api \<Rightarrow> 'w sys \<Rightarrow> (bool \<times> error option) \<times> 'w sys" where
  "HasLimits os s =
     (case QueryLimits os s of
        (Some err, s') \<Rightarrow> ((False, Some err), s')
      | (None, s') \<Rightarrow> ((length (limitInfoClassesSet (job s')) > 0, None), s'))"

definition ResetLimits :: "'w os_api \<Rightarrow> 'w sys \<Rightarrow> error option \<times> 'w sys" where
  "ResetLimits os s =
     (case QueryLimits os s of
        (Some err, s') \<Rightarrow> (Some err, s')
      | (None, s') \<Rightarrow>
          (let infoClasses = limitInfoClassesSet (job s') in
           sync os SetInfo infoClasses (s'\<lparr>job := (job s')\<lparr>JobInfo := zero_JobInfo\<rparr>\<rparr>)))"

text \<open>
  \<open>QueryCounters\<close>, assignment by assignment. The right-hand sides are the ones of the
  source.
\<close>

definition QueryCounters :: "'w os_api \<Rightarrow> Counters \<Rightarrow> 'w sys \<Rightarrow> error option \<times> Counters \<times> 'w sys" where
  "QueryCounters os c s =
     (case sync os QueryInfo [JobObjectBasicAndIoAccountingInformation] s of
        (Some err, s') \<Rightarrow> (Some err, c, s')
      | (None, s') \<Rightarrow>
          (let a = BasicAccounting (AccountingInfo (JobInfo (job s')));
               io = IoCounters (AccountingInfo (JobInfo (job s')))
           in (None,
               c\<lparr>Counters.TotalUserTime := TotalUserTime a,
                 Counters.TotalKernelTime := TotalUserTime a,
                 Counters.ThisPeriodTotalUserTime := TotalUserTime a,
                 Counters.ThisPeriodTotalKernelTime := TotalUserTime a,
                 Counters.TotalPageFaultCount := TotalPageFaultCount a,
                 Counters.TotalProcesses := TotalProcesses a,
                 Counters.ActiveProcesses := ActiveProcesses a,
                 Counters.TotalTerminatedProcesses := TotalTerminatedProcesses a,
                 Counters.ReadOperationCount := ReadOperationCount io,
                 Counters.WriteOperationCount := WriteOperationCount io,
                 Counters.OtherOperationCount := OtherOperationCount io,
                 Counters.ReadTransferCount := ReadTransferCount io,
                 Counters.WriteTransferCount := WriteTransferCount io,
                 Counters.OtherTransferCount := OtherOperationCount io\<rparr>,
               s')))"

text \<open>
  \<open>Create\<close>. It starts from a state of the system and a log and returns the job (or the
  error, with no job) and what became of both.
\<close>

definition Create ::
  "'w os_api \<Rightarrow> netLimitMethods \<Rightarrow> info_class list \<Rightarrow> string \<Rightarrow> Limit list \<Rightarrow> 'w \<Rightarrow> event list
     \<Rightarrow> (error + JobObject) \<times> 'w \<times> event list" where
  "Create os nl order name limits w lg =
     (case CreateJobObject os w name of
        (Inl err, w') \<Rightarrow> (Inl err, w', lg @ [CreateCall name])
      | (Inr hJobObject, w') \<Rightarrow>
          (let s = \<lparr>job = \<lparr>Name = name, Handle = hJobObject, JobInfo = zero_JobInfo\<rparr>,
                    world = w', log = lg @ [CreateCall name]\<rparr>
           in if length limits \<noteq> 0 then
                (case SetLimit os nl order limits s of
                   (Some err, s') \<Rightarrow>
                     (case JobObject_Close os s' of
                        (_, s'') \<Rightarrow> (Inl err, world s'', log s''))
                 | (None, s') \<Rightarrow> (Inr (job s'), world s', log s'))
              else (Inr (job s), world s, log s)))"

section \<open>Notifications\<close>

subsection \<open>Errors and messages\<close>

text \<open>
  \<open>errors.Is\<close>: the error itself or, through \<open>Unwrap\<close>, the error a
  \<open>SyscallError\<close> wraps. (\<open>Errno.Is\<close> answers only for the portable errors of
  package \<open>os\<close>, which are not modelled: the only target used is \<open>ErrAbandoned\<close>.)
\<close>

fun errors_Is :: "error \<Rightarrow> error \<Rightarrow> bool" where
  "errors_Is (SyscallError n e) target = (SyscallError n e = target \<or> errors_Is e target)"
| "errors_Is e target = (e = target)"

record Notification =
  Type :: string
  PID :: int

definition notificationTypes :: "(32 word \<times> string) list" where
  "notificationTypes =
     [(1, ''EndOfJobTime''), (2, ''EndOfProcessTime''), (3, ''ActiveProcessLimit''),
      (4, ''ActiveProcessZero''), (6, ''NewProcess''), (7, ''ExitProcess''),
      (8, ''AbnormalExitProcess''), (9, ''ProcessMemoryExit''), (10, ''JobMemoryLimit''),
      (11, ''NotificationLimit''), (12, ''JobCycleLimit''), (13, ''SiloTerminated'')]"

definition resolveNotificationType :: "32 word \<Rightarrow> string option" where
  "resolveNotificationType mType = map_of notificationTypes mType"

text \<open>\<open>fmt.Sprintf("%v", mType)\<close> for an unsigned integer: its decimal digits.\<close>

fun decimal :: "nat \<Rightarrow> string" where
  "decimal n =
     (if n < 10 then [char_of (48 + n)] else decimal (n div 10) @ [char_of (48 + n mod 10)])"

text \<open>
  What one call of \<open>syscall.GetQueuedCompletionStatus\<close> with an infinite timeout
  returns when it returns: an error, or the message type and the value the system put
  in the place of the overlapped pointer.
\<close>

type_synonym completion = "error + 32 word \<times> uintptr"

text \<open>
  \<open>jobapi.GetQueuedCompletionStatus\<close> wraps the error; \<open>Port.NextMessage\<close> turns the
  message into a \<open>Notification\<close>.
\<close>

definition GetQueuedCompletionStatus :: "completion \<Rightarrow> error + 32 word \<times> uintptr" where
  "GetQueuedCompletionStatus r =
     (case r of
        Inl e \<Rightarrow> Inl (SyscallError ''GetQueuedCompletionStatus'' e)
      | Inr m \<Rightarrow> Inr m)"

definition NextMessage :: "completion \<Rightarrow> error + Notification" where
  "NextMessage r =
     (case GetQueuedCompletionStatus r of
        Inl e \<Rightarrow> Inl e
      | Inr (mType, pid) \<Rightarrow>
          Inr \<lparr>Type = (case resolveNotificationType mType of
                         Some t \<Rightarrow> t
                       | None \<Rightarrow> decimal (unat mType)),
               PID = sint pid\<rparr>)"

subsection \<open>The subscription\<close>

text \<open>
  The mutex of a subscription has no field here: taking and releasing it are events of
  the trace, like every other step that another goroutine could observe.
\<close>

record Subscription =
  Port :: Handle
  err :: "error option"
  closed :: bool

text \<open>
  The channel given to \<open>Notify\<close>, seen from the sender: what has been sent and whether
  it is closed. Sending on a closed channel and closing it twice panic (\<open>None\<close>). The
  receiver is taken to drain the channel, so a send does not block for ever.
\<close>

record channel =
  sent :: "Notification list"
  chan_closed :: bool

definition chan_send :: "Notification \<Rightarrow> channel \<Rightarrow> channel option" where
  "chan_send m c = (if chan_closed c then None else Some (c\<lparr>sent := sent c @ [m]\<rparr>))"

definition chan_close :: "channel \<Rightarrow> channel option" where
  "chan_close c = (if chan_closed c then None else Some (c\<lparr>chan_closed := True\<rparr>))"

datatype sub_event =
    MuLock
  | MuUnlock
  | PortClose "error option"
  | StoreClosed
  | StoreErr error
  | ChanSend Notification
  | ChanClose

record 'w subsys =
  sub :: Subscription
  sink :: channel
  wld :: 'w
  trace :: "sub_event list"

text \<open>\<open>Subscription.Close\<close>, statement by statement; the deferred unlock ends every path.\<close>

definition Subscription_Close :: "'w os_api \<Rightarrow> 'w subsys \<Rightarrow> error option \<times> 'w subsys" where
  "Subscription_Close os s =
     (if closed (sub s) then (None, s\<lparr>trace := trace s @ [MuLock, MuUnlock]\<rparr>)
      else case CloseHandle os (wld s) (Port (sub s)) of
             (Some e, w') \<Rightarrow>
               (Some e, s\<lparr>wld := w', trace := trace s @ [MuLock, PortClose (Some e), MuUnlock]\<rparr>)
           | (None, w') \<Rightarrow>
               (None, s\<lparr>sub := (sub s)\<lparr>closed := True\<rparr>, wld := w',
                        trace := trace s @ [MuLock, PortClose None, StoreClosed, MuUnlock]\<rparr>))"

definition Subscription_Err :: "'w subsys \<Rightarrow> error option \<times> 'w subsys" where
  "Subscription_Err s = (err (sub s), s\<lparr>trace := trace s @ [MuLock, MuUnlock]\<rparr>)"

definition handlePortErr :: "error \<Rightarrow> 'w subsys \<Rightarrow> 'w subsys" where
  "handlePortErr e s =
     (if errors_Is e ErrAbandoned \<and> closed (sub s)
      then s\<lparr>trace := trace s @ [MuLock, MuUnlock]\<rparr>
      else s\<lparr>sub := (sub s)\<lparr>err := Some e\<rparr>,
             trace := trace s @ [MuLock, StoreErr e, MuUnlock]\<rparr>)"

text \<open>
  One pass of the loop of \<open>notify\<close>, given what the wait returns: the loop goes on
  (\<open>Next\<close>), or \<open>notify\<close> returns (\<open>Exit\<close>) after the deferred \<open>close(c)\<close>, or the
  goroutine panics.
\<close>

datatype 'a pass = Next 'a | Exit 'a | PassPanics

definition notify_pass :: "completion \<Rightarrow> 'w subsys \<Rightarrow> 'w subsys pass" where
  "notify_pass r s =
     (case NextMessage r of
        Inl e \<Rightarrow>
          (let s' = handlePortErr e s in
           case chan_close (sink s') of
             None \<Rightarrow> PassPanics
           | Some c \<Rightarrow> Exit (s'\<lparr>sink := c, trace := trace s' @ [ChanClose]\<rparr>))
      | Inr m \<Rightarrow>
          (case chan_send m (sink s) of
             None \<Rightarrow> PassPanics
           | Some c \<Rightarrow> Next (s\<lparr>sink := c, trace := trace s @ [ChanSend m]\<rparr>)))"

text \<open>
  \<open>notify\<close>: the loop, over the results of its successive waits. When the list ends
  with no error in it the next wait never returns, and neither does \<open>notify\<close>.
\<close>

datatype 'a outcome = Blocks | Panics | Returns 'a

fun notify :: "completion list \<Rightarrow> 'w subsys \<Rightarrow> 'w subsys outcome" where
  "notify [] s = Blocks"
| "notify (r # rs) s =
     (case notify_pass r s of
        Next s' \<Rightarrow> notify rs s'
      | Exit s' \<Rightarrow> Returns s'
      | PassPanics \<Rightarrow> Panics)"

subsection \<open>The life of a subscription\<close>

text \<open>
  \<open>Notify\<close> starts one goroutine running \<open>notify\<close> and hands the subscription out;
  from then on the loop and the callers of \<open>Close\<close> and \<open>Err\<close> run side by side.
  \<open>Close\<close>, \<open>Err\<close> and \<open>handlePortErr\<close> hold the mutex for all they do and the rest
  of the loop touches only the channel, so a run is a sequence of whole steps: the
  pending wait of the loop returns and the loop makes one pass, or some goroutine calls
  \<open>Close\<close>, or some goroutine calls \<open>Err\<close>. Once the loop has returned, a result of
  the wait is never asked for.
\<close>

datatype loop_state = Running | Exited | Panicked

datatype action = WaitReturns completion | CallClose | CallErr

definition fresh_subscription :: "Handle \<Rightarrow> 'w \<Rightarrow> 'w subsys" where
  "fresh_subscription p w =
     \<lparr>sub = \<lparr>Port = p, err = None, closed = False\<rparr>,
      sink = \<lparr>sent = [], chan_closed = False\<rparr>, wld = w, trace = []\<rparr>"

fun lifetime :: "'w os_api \<Rightarrow> action list \<Rightarrow> loop_state \<times> 'w subsys \<Rightarrow> loop_state \<times> 'w subsys" where
  "lifetime os [] x = x"
| "lifetime os (WaitReturns r # as) (Running, s) =
     (case notify_pass r s of
        Next s' \<Rightarrow> lifetime os as (Running, s')
      | Exit s' \<Rightarrow> lifetime os as (Exited, s')
      | PassPanics \<Rightarrow> (Panicked, s))"
| "lifetime os (WaitReturns r # as) (l, s) = lifetime os as (l, s)"
| "lifetime os (CallClose # as) (l, s) = lifetime os as (l, snd (Subscription_Close os s))"
| "lifetime os (CallErr # as) (l, s) = lifetime os as (l, snd (Subscription_Err s))"

text \<open>
  Reading a trace: after each event, whether the mutex is held, whether the port
  handle has been closed, and whether the closed flag has been stored.
\<close>

fun after_event :: "bool \<times> bool \<times> bool \<Rightarrow> sub_event \<Rightarrow> bool \<times> bool \<times> bool" where
  "after_event (m, h, f) MuLock = (True, h, f)"
| "after_event (m, h, f) MuUnlock = (False, h, f)"
| "after_event (m, h, f) (PortClose None) = (m, True, f)"
| "after_event (m, h, f) StoreClosed = (m, h, True)"
| "after_event (m, h, f) _ = (m, h, f)"

fun snapshots :: "bool \<times> bool \<times> bool \<Rightarrow> sub_event list \<Rightarrow> (bool \<times> bool \<times> bool) list" where
  "snapshots x [] = []"
| "snapshots x (e # es) = after_event x e # snapshots (after_event x e) es"

section \<open>Reading the log\<close>

text \<open>The classes queried, the classes written back and the limits merged, in order.\<close>

fun queries_of :: "event list \<Rightarrow> info_class list" where
  "queries_of [] = []"
| "queries_of (Sync QueryInfo c # es) = c # queries_of es"
| "queries_of (_ # es) = queries_of es"

fun writes_of :: "event list \<Rightarrow> info_class list" where
  "writes_of [] = []"
| "writes_of (Sync SetInfo c # es) = c # writes_of es"
| "writes_of (_ # es) = writes_of es"

fun merges_of :: "event list \<Rightarrow> (bool \<times> Limit) list" where
  "merges_of [] = []"
| "merges_of (Merge b l # es) = (b, l) # merges_of es"
| "merges_of (_ # es) = merges_of es"

text \<open>
  Every merge finds the block of its limit queried already: \<open>Q\<close> holds the classes
  queried so far.
\<close>

fun merges_follow_query :: "info_class set \<Rightarrow> event list \<Rightarrow> bool" where
  "merges_follow_query Q [] = True"
| "merges_follow_query Q (Sync QueryInfo c # es) = merges_follow_query (insert c Q) es"
| "merges_follow_query Q (Merge b l # es) =
     (resolveRequiredInfoClass l \<in> Q \<and> merges_follow_query Q es)"
| "merges_follow_query Q (_ # es) = merges_follow_query Q es"

text \<open>From the first write-back on there are only write-backs.\<close>

fun is_write :: "event \<Rightarrow> bool" where
  "is_write (Sync SetInfo c) = True"
| "is_write _ = False"

definition writes_last :: "event list \<Rightarrow> bool" where
  "writes_last tr = list_all is_write (dropWhile (\<lambda>e. \<not> is_write e) tr)"

text \<open>
  The protocol of one call, read off the events \<open>tr\<close> it added to the log: every
  limit is merged, in the order given; each of the \<open>M\<close> distinct blocks is queried
  once and written back once (\<open>M\<close> is the length of \<open>blocks\<close>); every merge comes
  after the query of its block; the write-backs come last.
\<close>

definition round_trips :: "bool \<Rightarrow> Limit list \<Rightarrow> event list \<Rightarrow> bool" where
  "round_trips set' limits tr =
     (let blocks = remdups (map resolveRequiredInfoClass limits) in
      merges_of tr = map (Pair set') limits \<and>
      distinct (queries_of tr) \<and> set (queries_of tr) = set blocks \<and>
      length (queries_of tr) = length blocks \<and>
      distinct (writes_of tr) \<and> set (writes_of tr) = set blocks \<and>
      length (writes_of tr) = length blocks \<and>
      merges_follow_query {} tr \<and> writes_last tr)"

text \<open>The sub-mode flags that are on in the control flags of the CPU block.\<close>

definition active_submodes :: "32 word \<Rightarrow> 32 word list" where
  "active_submodes f =
     filter (\<lambda>m. f AND m \<noteq> 0)
       [JOB_OBJECT_CPU_RATE_CONTROL_HARD_CAP, JOB_OBJECT_CPU_RATE_CONTROL_WEIGHT_BASED,
        JOB_OBJECT_CPU_RATE_CONTROL_MIN_MAX_RATE]"

text \<open>
  The flag field of a block: the field \<open>limitInfoClassesSet\<close> tests. The accounting
  block has none.
\<close>

fun block_flags :: "info_block \<Rightarrow> 32 word" where
  "block_flags (ExtendedBlock b) = LimitFlags (BasicLimitInformation b)"
| "block_flags (UIBlock b) = UIRestrictionsClass b"
| "block_flags (CPUBlock b) = ControlFlags b"
| "block_flags (NetBlock b) = JOBOBJECT_NET_RATE_CONTROL_INFORMATION.ControlFlags b"
| "block_flags (AccountingBlock b) = 0"

definition limit_classes :: "info_class list" where
  "limit_classes =
     [JobObjectExtendedLimitInformation, JobObjectBasicUIRestrictions,
      JobObjectCpuRateControlInformation, JobObjectNetRateControlInformation]"

text \<open>
  A system that reads back what was written: a query changes nothing and gives a
  block of the class asked for; after a write-back that succeeded, a query of the same
  class on the same handle gives the block written, if it gives one, and a query of
  any other class gives what it gave before.
\<close>

definition reads_back :: "'w os_api \<Rightarrow> bool" where
  "reads_back os \<longleftrightarrow>
     (\<forall>w h c. snd (queryInformationJobObject os w h c) = w \<and>
        (\<forall>b. fst (queryInformationJobObject os w h c) = Inr b \<longrightarrow> block_class b = c)) \<and>
     (\<forall>w h c b w'. setInformationJobObject os w h c b = (None, w') \<longrightarrow>
        (\<forall>b'. fst (queryInformationJobObject os w' h c) = Inr b' \<longrightarrow> b' = b) \<and>
        (\<forall>c'. c' \<noteq> c \<longrightarrow>
           fst (queryInformationJobObject os w' h c') = fst (queryInformationJobObject os w h c')))"

text \<open>The events of a trace that touch the channel.\<close>

fun is_sink_event :: "sub_event \<Rightarrow> bool" where
  "is_sink_event (ChanSend m) = True"
| "is_sink_event ChanClose = True"
| "is_sink_event _ = False"


text \<open>
  What holds of the loop and the subscription at every moment of a life: the goroutine
  has not panicked; the sink is closed exactly when the loop has returned; the events on
  the sink are the sends, in the order of \<open>sent\<close>, followed by one close when the loop
  has returned and by none before; and the port handle has been closed with success
  once when the closed flag is set and never when it is not.
\<close>

definition life_inv :: "loop_state \<times> 'w subsys \<Rightarrow> bool" where
  "life_inv x =
     (case x of (l, s) \<Rightarrow>
        l \<noteq> Panicked \<and> chan_closed (sink s) = (l = Exited) \<and>
        filter is_sink_event (trace s) =
          map ChanSend (sent (sink s)) @ (if l = Exited then [ChanClose] else []) \<and>
        length (filter (\<lambda>e. e = PortClose None) (trace s)) = (if closed (sub s) then 1 else 0))"

section \<open>A small system to run the definitions on\<close>

text \<open>
  One job, under the handle 1 once it is created, and the handles that are open. A
  query or a write-back on another handle or on a closed one fails with
  \<open>ERROR_INVALID_HANDLE\<close> (6); a write-back of a block that is not of the class named,
  or of a hard cap that is zero or above 10000, fails with \<open>ERROR_INVALID_PARAMETER\<close>
  (87); any other write-back stores the block, and a query reads what is stored.
\<close>

record sim_world =
  open_handles :: "Handle list"
  stored :: JobInfo

definition sim_rejects :: "info_class \<Rightarrow> info_block \<Rightarrow> bool" where
  "sim_rejects c b =
     (block_class b \<noteq> c \<or>
      (case b of
         CPUBlock r \<Rightarrow>
           ControlFlags r AND JOB_OBJECT_CPU_RATE_CONTROL_HARD_CAP \<noteq> 0 \<and>
           (Value r = 0 \<or> Value r > 10000)
       | _ \<Rightarrow> False))"

definition sim_os :: "sim_world os_api" where
  "sim_os =
     \<lparr>createJobObject = (\<lambda>w name. (Inr 1, \<lparr>open_handles = 1 # open_handles w, stored = zero_JobInfo\<rparr>)),
      queryInformationJobObject = (\<lambda>w h c.
        if h = 1 \<and> h \<in> set (open_handles w) then (Inr (infoPtr_read c (stored w)), w)
        else (Inl 6, w)),
      setInformationJobObject = (\<lambda>w h c b.
        if h = 1 \<and> h \<in> set (open_handles w) then
          (if sim_rejects c b then (Some 87, w)
           else (None, w\<lparr>stored := infoPtr_write c b (stored w)\<rparr>))
        else (Some 6, w)),
      CloseHandle = (\<lambda>w h.
        if h \<in> set (open_handles w) then (None, w\<lparr>open_handles := removeAll h (open_handles w)\<rparr>)
        else (Some (Errno 6), w))\<rparr>"

definition sim_start :: sim_world where
  "sim_start = \<lparr>open_handles = [], stored = zero_JobInfo\<rparr>"

text \<open>The network limits, for the runs: each stores its value and nothing else.\<close>

definition sim_net :: netLimitMethods where
  "sim_net =
     \<lparr>netBandwidthLimit_set = (\<lambda>x. MaxBandwidth_update (\<lambda>_. x)),
      netBandwidthLimit_reset = (\<lambda>x. MaxBandwidth_update (\<lambda>_. 0)),
      netDSCPTagLimit_set = (\<lambda>x. DscpTag_update (\<lambda>_. x)),
      netDSCPTagLimit_reset = (\<lambda>x. DscpTag_update (\<lambda>_. 0)),
      netBandwidthLimit_IsSet = (\<lambda>x b. MaxBandwidth b \<noteq> 0),
      netDSCPTagLimit_IsSet = (\<lambda>x b. DscpTag b \<noteq> 0)\<rparr>"

text \<open>A job open under the handle 1 with nothing set, and four limits on three blocks.\<close>

definition sim_job :: "sim_world sys" where
  "sim_job =
     \<lparr>job = \<lparr>Name = [], Handle = 1, JobInfo = zero_JobInfo\<rparr>,
      world = \<lparr>open_handles = [1], stored = zero_JobInfo\<rparr>, log = []\<rparr>"

definition sim_limits :: "Limit list" where
  "sim_limits =
     [LimitBreakawayOK, WithCPUHardCapLimit 500, LimitKillOnJobClose,
      uiRestriction JOB_OBJECT_UILIMIT_DESKTOP]"

text \<open>The same job when the system has counted something for it.\<close>

definition sim_accounting :: JOBOBJECT_BASIC_AND_IO_ACCOUNTING_INFORMATION where
  "sim_accounting =
     \<lparr>BasicAccounting =
        \<lparr>TotalUserTime = 1, TotalKernelTime = 2, ThisPeriodTotalUserTime = 3,
         ThisPeriodTotalKernelTime = 4, TotalPageFaultCount = 5, TotalProcesses = 6,
         ActiveProcesses = 7, TotalTerminatedProcesses = 8\<rparr>,
      IoCounters =
        \<lparr>ReadOperationCount = 9, WriteOperationCount = 10, OtherOperationCount = 11,
         ReadTransferCount = 12, WriteTransferCount = 13, OtherTransferCount = 14\<rparr>\<rparr>"

definition sim_busy_job :: "sim_world sys" where
  "sim_busy_job =
     sim_job\<lparr>world :=
       \<lparr>open_handles = [1], stored = zero_JobInfo\<lparr>AccountingInfo := sim_accounting\<rparr>\<rparr>\<rparr>"

text \<open>
  The same job when the system holds two restrictions for it that its cache does not
  show: a user-interface restriction and a hard cap. Its extended limits and its network
  block are empty.
\<close>

definition sim_limited_job :: "sim_world sys" where
  "sim_limited_job =
     sim_job\<lparr>world :=
       \<lparr>open_handles = [1],
        stored = zero_JobInfo
          \<lparr>UIRestrictions := \<lparr>UIRestrictionsClass = 0x40\<rparr>,
           CPURateControl := \<lparr>ControlFlags = 13, Value = 500\<rparr>\<rparr>\<rparr>\<rparr>"

text \<open>A subscription just made by \<open>Notify\<close>, its port open under the handle 2.\<close>

definition sim_subscription :: "sim_world subsys" where
  "sim_subscription = fresh_subscription 2 \<lparr>open_handles = [2], stored = zero_JobInfo\<rparr>"

section \<open>Properties\<close>

lemmas sim_defs = sim_os_def sim_net_def sim_rejects_def sim_start_def sim_job_def sim_limits_def
  sim_busy_job_def sim_accounting_def sim_subscription_def sim_limited_job_def

lemmas sub_defs = Subscription_Close_def Subscription_Err_def handlePortErr_def notify_pass_def
  NextMessage_def GetQueuedCompletionStatus_def chan_send_def chan_close_def
  fresh_subscription_def

lemmas job_defs = SetLimit_def ResetLimit_def applyLimit_def map_range_def all_info_classes_def
  merge_limit_def resolveRequiredInfoClass_def QueryLimits_def

lemmas limit_defs = LimitBreakawayOK_def LimitKillOnJobClose_def WithCPUHardCapLimit_def
  WithCPUWeightedLimit_def WithCPUMinMaxLimit_def
  basicLimit_set_def basicLimit_reset_def uiRestriction_set_def uiRestriction_reset_def
  cpuLimit_set_def cpuLimit_reset_def cpuLimit_LimitValue_def zero_CPURate_def

lemmas zero_defs = zero_JobInfo_def zero_ExtendedLimits_def zero_AccountingInfo_def
  zero_IO_COUNTERS_def

lemmas cpu_consts = JOB_OBJECT_CPU_RATE_CONTROL_HARD_CAP_def
  JOB_OBJECT_CPU_RATE_CONTROL_WEIGHT_BASED_def JOB_OBJECT_CPU_RATE_CONTROL_MIN_MAX_RATE_def
  JOB_OBJECT_CPU_RATE_CONTROL_ENABLE_def JOB_OBJECT_CPU_RATE_CONTROL_NOTIFY_def

lemmas const_defs = JOB_OBJECT_LIMIT_BREAKAWAY_OK_def JOB_OBJECT_LIMIT_KILL_ON_JOB_CLOSE_def
  JOB_OBJECT_UILIMIT_DESKTOP_def cpu_consts

subsection \<open>The CPU rate\<close>

lemma Uint16_PutUint32_lo:
  "Uint16 (ucast (Uint32 a0 a1 b0 b1)) (ucast (drop_bit 8 (Uint32 a0 a1 b0 b1))) = Uint16 a0 a1"
  unfolding Uint16_def Uint32_def
  by (rule bit_word_eqI) (auto simp add: bit_simps dest: bit_imp_le_length)

lemma Uint16_PutUint32_hi:
  "Uint16 (ucast (drop_bit 16 (Uint32 a0 a1 b0 b1))) (ucast (drop_bit 24 (Uint32 a0 a1 b0 b1)))
     = Uint16 b0 b1"
  unfolding Uint16_def Uint32_def
  by (rule bit_word_eqI) (auto simp add: bit_simps dest: bit_imp_le_length)

lemma Uint16_PutUint16: "Uint16 (ucast v) (ucast (drop_bit 8 v)) = v"
  unfolding Uint16_def
  by (rule bit_word_eqI) (auto simp add: bit_simps dest: bit_imp_le_length)

lemma cpu_hard_cap:
  "0 < v \<Longrightarrow>
     ControlFlags (CPURateControl (JobInfo (Limit_set nl (WithCPUHardCapLimit v) j))) =
       JOB_OBJECT_CPU_RATE_CONTROL_HARD_CAP OR JOB_OBJECT_CPU_RATE_CONTROL_ENABLE
         OR JOB_OBJECT_CPU_RATE_CONTROL_NOTIFY \<and>
     active_submodes (ControlFlags (CPURateControl (JobInfo
         (Limit_set nl (WithCPUHardCapLimit v) j)))) = [JOB_OBJECT_CPU_RATE_CONTROL_HARD_CAP] \<and>
     cpuLimit_LimitValue l (Limit_set nl (WithCPUHardCapLimit v) j) =
       zero_CPURate\<lparr>HardCap := v\<rparr>"
  by (simp add: limit_defs cpu_consts active_submodes_def Let_def)

lemma cpu_weight:
  "0 < v \<Longrightarrow>
     ControlFlags (CPURateControl (JobInfo (Limit_set nl (WithCPUWeightedLimit v) j))) =
       JOB_OBJECT_CPU_RATE_CONTROL_WEIGHT_BASED OR JOB_OBJECT_CPU_RATE_CONTROL_ENABLE
         OR JOB_OBJECT_CPU_RATE_CONTROL_NOTIFY \<and>
     active_submodes (ControlFlags (CPURateControl (JobInfo
         (Limit_set nl (WithCPUWeightedLimit v) j)))) =
       [JOB_OBJECT_CPU_RATE_CONTROL_WEIGHT_BASED] \<and>
     cpuLimit_LimitValue l (Limit_set nl (WithCPUWeightedLimit v) j) =
       zero_CPURate\<lparr>Weight := v\<rparr>"
  by (simp add: limit_defs cpu_consts active_submodes_def Let_def)

lemma cpu_min_max:
  "0 < mx \<Longrightarrow>
     ControlFlags (CPURateControl (JobInfo (Limit_set nl (WithCPUMinMaxLimit mn mx) j))) =
       JOB_OBJECT_CPU_RATE_CONTROL_MIN_MAX_RATE OR JOB_OBJECT_CPU_RATE_CONTROL_ENABLE
         OR JOB_OBJECT_CPU_RATE_CONTROL_NOTIFY \<and>
     active_submodes (ControlFlags (CPURateControl (JobInfo
         (Limit_set nl (WithCPUMinMaxLimit mn mx) j)))) =
       [JOB_OBJECT_CPU_RATE_CONTROL_MIN_MAX_RATE] \<and>
     cpuLimit_LimitValue l (Limit_set nl (WithCPUMinMaxLimit mn mx) j) =
       zero_CPURate\<lparr>RateMin := mn, RateMax := mx\<rparr>"
  by (simp add: limit_defs cpu_consts active_submodes_def Let_def PutUint16_def PutUint32_def
      Uint16_PutUint32_lo Uint16_PutUint32_hi Uint16_PutUint16)

text \<open>
  C5, as stated, fails: a hard cap of 0 (or a weight of 0, or a maximum of 0) leaves
  the \<open>switch\<close> of \<open>cpuLimit.set\<close> without a case, and the control flags are then the
  enable and notify bits with no sub-mode flag at all. Here on a job with nothing set.
\<close>

theorem cpu_zero_value_no_submode:
  "active_submodes (ControlFlags (CPURateControl (JobInfo
      (Limit_set sim_net (WithCPUHardCapLimit 0) (job sim_job))))) = [] \<and>
   ControlFlags (CPURateControl (JobInfo
      (Limit_set sim_net (WithCPUHardCapLimit 0) (job sim_job)))) = 9"
  by (simp add: sim_defs limit_defs zero_defs cpu_consts active_submodes_def Let_def)

text \<open>
  C5, amended: for every prior state \<open>j\<close> of the job, whatever its CPU block holds,
  applying the limit built by \<open>WithCPUHardCapLimit v\<close> or \<open>WithCPUWeightedLimit v\<close>
  with \<open>v > 0\<close>, or by \<open>WithCPUMinMaxLimit mn mx\<close> with \<open>mx > 0\<close>, overwrites the
  control flags with the flag of that one sub-mode plus the enable and notify bits, so
  that exactly that sub-mode flag is on; and decoding the block afterwards gives the
  rate of that sub-mode alone: the hard cap \<open>v\<close>, the weight \<open>v\<close>, or the pair
  \<open>(mn, mx)\<close> as it was set, through the two 16-bit halves of the 32-bit value.
\<close>

theorem cpu_limit_last_submode_wins:
  "(0 < v \<longrightarrow>
      ControlFlags (CPURateControl (JobInfo (Limit_set nl (WithCPUHardCapLimit v) j))) =
        JOB_OBJECT_CPU_RATE_CONTROL_HARD_CAP OR JOB_OBJECT_CPU_RATE_CONTROL_ENABLE
          OR JOB_OBJECT_CPU_RATE_CONTROL_NOTIFY \<and>
      active_submodes (ControlFlags (CPURateControl (JobInfo
          (Limit_set nl (WithCPUHardCapLimit v) j)))) = [JOB_OBJECT_CPU_RATE_CONTROL_HARD_CAP] \<and>
      cpuLimit_LimitValue l (Limit_set nl (WithCPUHardCapLimit v) j) =
        zero_CPURate\<lparr>HardCap := v\<rparr>) \<and>
   (0 < v \<longrightarrow>
      ControlFlags (CPURateControl (JobInfo (Limit_set nl (WithCPUWeightedLimit v) j))) =
        JOB_OBJECT_CPU_RATE_CONTROL_WEIGHT_BASED OR JOB_OBJECT_CPU_RATE_CONTROL_ENABLE
          OR JOB_OBJECT_CPU_RATE_CONTROL_NOTIFY \<and>
      active_submodes (ControlFlags (CPURateControl (JobInfo
          (Limit_set nl (WithCPUWeightedLimit v) j)))) =
        [JOB_OBJECT_CPU_RATE_CONTROL_WEIGHT_BASED] \<and>
      cpuLimit_LimitValue l (Limit_set nl (WithCPUWeightedLimit v) j) =
        zero_CPURate\<lparr>Weight := v\<rparr>) \<and>
   (0 < mx \<longrightarrow>
      ControlFlags (CPURateControl (JobInfo (Limit_set nl (WithCPUMinMaxLimit mn mx) j))) =
        JOB_OBJECT_CPU_RATE_CONTROL_MIN_MAX_RATE OR JOB_OBJECT_CPU_RATE_CONTROL_ENABLE
          OR JOB_OBJECT_CPU_RATE_CONTROL_NOTIFY \<and>
      active_submodes (ControlFlags (CPURateControl (JobInfo
          (Limit_set nl (WithCPUMinMaxLimit mn mx) j)))) =
        [JOB_OBJECT_CPU_RATE_CONTROL_MIN_MAX_RATE] \<and>
      cpuLimit_LimitValue l (Limit_set nl (WithCPUMinMaxLimit mn mx) j) =
        zero_CPURate\<lparr>RateMin := mn, RateMax := mx\<rparr>)"
  using cpu_hard_cap[of v nl j l] cpu_weight[of v nl j l] cpu_min_max[of mx nl mn j l]
  by blast

text \<open>
  The test \<open>TestLimits_CPULimit\<close>: a hard cap of 500, then a weight of 7, then the pair
  (500, 1000), on the same job; after each, the flags and the decoded rate.
\<close>

theorem cpu_limit_last_submode_wins_witness:
  "(0::32 word) < 7 \<and> (0::16 word) < 1000 \<and>
   cpuLimit_LimitValue zero_CPURate
     (Limit_set sim_net (WithCPUWeightedLimit 7)
        (Limit_set sim_net (WithCPUHardCapLimit 500) (job sim_job))) =
     zero_CPURate\<lparr>Weight := 7\<rparr> \<and>
   cpuLimit_LimitValue zero_CPURate
     (Limit_set sim_net (WithCPUMinMaxLimit 500 1000)
        (Limit_set sim_net (WithCPUWeightedLimit 7)
           (Limit_set sim_net (WithCPUHardCapLimit 500) (job sim_job)))) =
     zero_CPURate\<lparr>RateMin := 500, RateMax := 1000\<rparr>"
  using cpu_limit_last_submode_wins
    [of 7 sim_net "Limit_set sim_net (WithCPUHardCapLimit 500) (job sim_job)" zero_CPURate
        1000 500]
    cpu_limit_last_submode_wins
    [of 7 sim_net "Limit_set sim_net (WithCPUWeightedLimit 7)
        (Limit_set sim_net (WithCPUHardCapLimit 500) (job sim_job))" zero_CPURate 1000 500]
  by simp

subsection \<open>The log of \<open>sync\<close> and of \<open>applyLimit\<close>\<close>

lemma queries_of_append: "queries_of (a @ b) = queries_of a @ queries_of b"
  by (induction a rule: queries_of.induct) simp_all

lemma writes_of_append: "writes_of (a @ b) = writes_of a @ writes_of b"
  by (induction a rule: writes_of.induct) simp_all

lemma merges_of_append: "merges_of (a @ b) = merges_of a @ merges_of b"
  by (induction a rule: merges_of.induct) simp_all

lemma queries_of_map_Sync: "queries_of (map (Sync fn) cs) = (if fn = QueryInfo then cs else [])"
  by (induction cs) (cases fn; simp)+

lemma writes_of_map_Sync: "writes_of (map (Sync fn) cs) = (if fn = SetInfo then cs else [])"
  by (induction cs) (cases fn; simp)+

lemma merges_of_map_Sync: "merges_of (map (Sync fn) cs) = []"
  by (induction cs) simp_all

lemma merges_follow_query_writes:
  "merges_follow_query Q (a @ map (Sync SetInfo) ws) = merges_follow_query Q a"
proof (induction Q a rule: merges_follow_query.induct)
  case (1 Q)
  show ?case by (induction ws) simp_all
qed simp_all

lemma writes_last_append: "writes_of a = [] \<Longrightarrow> writes_last (a @ map (Sync SetInfo) ws)"
proof (induction a rule: writes_of.induct)
  case 1
  have "list_all is_write (map (Sync SetInfo) ws)"
    by (induction ws) simp_all
  then show ?case
    unfolding writes_last_def by (cases ws) simp_all
qed (simp_all add: writes_last_def)

lemma sync_ok_log: "sync os fn cs s = (None, s') \<Longrightarrow> log s' = log s @ map (Sync fn) cs"
proof (induction cs arbitrary: s)
  case Nil
  then show ?case by simp
next
  case (Cons c cs)
  then show ?case
    by (auto split: prod.splits option.splits simp: Let_def)
qed

text \<open>
  The first loop, when it ends without an error: it merged every limit, queried each
  class outside \<open>cs\<close> once, before the first merge into it, and wrote nothing back.
\<close>

lemma applyLimit_loop_ok:
  "applyLimit_loop os nl b ls cs s = (None, cs', s') \<Longrightarrow>
     \<exists>tr. log s' = log s @ tr \<and> cs' = cs \<union> resolveRequiredInfoClass ` set ls \<and>
       writes_of tr = [] \<and> merges_of tr = map (Pair b) ls \<and>
       distinct (queries_of tr) \<and>
       set (queries_of tr) = resolveRequiredInfoClass ` set ls - cs \<and>
       merges_follow_query cs tr"
proof (induction ls arbitrary: cs s)
  case Nil
  then show ?case by simp
next
  case (Cons l ls)
  let ?c = "resolveRequiredInfoClass l"
  show ?case
  proof (cases "?c \<in> cs")
    case True
    with Cons.prems
    have "applyLimit_loop os nl b ls (insert ?c cs) (merge_limit nl b l s) = (None, cs', s')"
      by (simp add: Let_def)
    from Cons.IH[OF this] obtain tr where tr:
      "log s' = log (merge_limit nl b l s) @ tr"
      "cs' = insert ?c cs \<union> resolveRequiredInfoClass ` set ls"
      "writes_of tr = []" "merges_of tr = map (Pair b) ls" "distinct (queries_of tr)"
      "set (queries_of tr) = resolveRequiredInfoClass ` set ls - insert ?c cs"
      "merges_follow_query (insert ?c cs) tr"
      by blast
    have ins: "insert ?c cs = cs"
      using True by auto
    show ?thesis
      apply (rule exI[of _ "Merge b l # tr"])
      using tr True ins by (auto simp: merge_limit_def)
  next
    case False
    with Cons.prems obtain s1 where s1: "sync os QueryInfo [?c] s = (None, s1)"
      and rest: "applyLimit_loop os nl b ls (insert ?c cs) (merge_limit nl b l s1) = (None, cs', s')"
      by (auto simp: Let_def split: prod.splits option.splits)
    have l1: "log s1 = log s @ [Sync QueryInfo ?c]"
      using sync_ok_log[OF s1] by simp
    from Cons.IH[OF rest] obtain tr where tr:
      "log s' = log (merge_limit nl b l s1) @ tr"
      "cs' = insert ?c cs \<union> resolveRequiredInfoClass ` set ls"
      "writes_of tr = []" "merges_of tr = map (Pair b) ls" "distinct (queries_of tr)"
      "set (queries_of tr) = resolveRequiredInfoClass ` set ls - insert ?c cs"
      "merges_follow_query (insert ?c cs) tr"
      by blast
    show ?thesis
      apply (rule exI[of _ "Sync QueryInfo ?c # Merge b l # tr"])
      using tr False l1 by (auto simp: merge_limit_def)
  qed
qed

lemma set_all_info_classes: "set all_info_classes = UNIV"
proof -
  have "c \<in> set all_info_classes" for c
    by (cases c) (simp_all add: all_info_classes_def)
  then show ?thesis by auto
qed

lemma map_range_set: "set (map_range order S) = S"
  using set_all_info_classes by (auto simp: map_range_def)

lemma map_range_distinct: "distinct (map_range order S)"
  by (auto simp: map_range_def all_info_classes_def)

lemma applyLimit_ok:
  assumes "applyLimit os nl order b ls s = (None, s')"
  shows "\<exists>tr. log s' = log s @ tr \<and> round_trips b ls tr"
proof -
  from assms obtain cs s1 where l: "applyLimit_loop os nl b ls {} s = (None, cs, s1)"
    and w: "sync os SetInfo (map_range order cs) s1 = (None, s')"
    by (auto simp: applyLimit_def split: prod.splits option.splits)
  from applyLimit_loop_ok[OF l] obtain tr where tr:
    "log s1 = log s @ tr" "cs = resolveRequiredInfoClass ` set ls"
    "writes_of tr = []" "merges_of tr = map (Pair b) ls" "distinct (queries_of tr)"
    "set (queries_of tr) = resolveRequiredInfoClass ` set ls"
    "merges_follow_query {} tr"
    by auto
  let ?ws = "map_range order cs"
  have lg: "log s' = log s @ tr @ map (Sync SetInfo) ?ws"
    using sync_ok_log[OF w] tr(1) by simp
  have len: "length (queries_of tr) = length (remdups (map resolveRequiredInfoClass ls))"
    using tr(5,6) by (metis distinct_card length_remdups_card_conv set_map)
  have len2: "length ?ws = length (remdups (map resolveRequiredInfoClass ls))"
    using map_range_distinct[of order cs] map_range_set[of order cs] tr(2)
    by (metis distinct_card length_remdups_card_conv set_map)
  have "round_trips b ls (tr @ map (Sync SetInfo) ?ws)"
    unfolding round_trips_def Let_def
    using tr len len2 map_range_distinct[of order cs] map_range_set[of order cs]
    by (simp add: queries_of_append writes_of_append merges_of_append queries_of_map_Sync
        writes_of_map_Sync merges_of_map_Sync merges_follow_query_writes writes_last_append)
  with lg show ?thesis by blast
qed

lemma applyLimit_nil: "applyLimit os nl order b [] s = (None, s)"
  by (simp add: applyLimit_def map_range_def)

text \<open>
  C1, as stated, fails on a call the system refuses: on a handle that is not open the
  query of the one block touched fails, \<open>SetLimit\<close> returns that error at once, and
  the block is never written back, though one limit on one block was given.
\<close>

theorem SetLimit_failed_query_no_write_back:
  "fst (SetLimit sim_os sim_net [] [LimitBreakawayOK] (sim_job\<lparr>world := sim_start\<rparr>)) =
     Some (SyscallError ''QueryInformationJobObject'' (Errno 6)) \<and>
   log (snd (SetLimit sim_os sim_net [] [LimitBreakawayOK] (sim_job\<lparr>world := sim_start\<rparr>))) =
     [Sync QueryInfo JobObjectExtendedLimitInformation] \<and>
   \<not> round_trips True [LimitBreakawayOK]
       (log (snd (SetLimit sim_os sim_net [] [LimitBreakawayOK] (sim_job\<lparr>world := sim_start\<rparr>))))"
  by (simp add: sim_defs job_defs limit_defs const_defs round_trips_def Let_def)

text \<open>
  C1, amended: for every call to \<open>SetLimit\<close> or \<open>ResetLimit\<close> that returns success
  (no query and no write-back was refused), with \<open>N\<close> limits that target \<open>M\<close> distinct
  blocks, the events \<open>tr\<close> the call adds to the log are as \<open>round_trips\<close> says: every
  limit is merged, in order; each distinct block is queried exactly once, before the
  first merge into it; after all merges each distinct block is written back exactly
  once (\<open>M\<close> queries and \<open>M\<close> write-backs, whatever \<open>N\<close> is and in whatever order Go
  ranges over its map). A call with no limits makes no call to the system, changes
  nothing and returns success.
\<close>

theorem applyLimit_round_trips:
  "(SetLimit os nl order limits s = (None, s') \<longrightarrow>
      log s' = log s @ drop (length (log s)) (log s') \<and>
      round_trips True limits (drop (length (log s)) (log s'))) \<and>
   (ResetLimit os nl order limits s = (None, s') \<longrightarrow>
      log s' = log s @ drop (length (log s)) (log s') \<and>
      round_trips False limits (drop (length (log s)) (log s'))) \<and>
   SetLimit os nl order [] s = (None, s) \<and>
   ResetLimit os nl order [] s = (None, s)"
proof -
  have "log s' = log s @ drop (length (log s)) (log s') \<and>
        round_trips b limits (drop (length (log s)) (log s'))"
    if "applyLimit os nl order b limits s = (None, s')" for b
    using applyLimit_ok[OF that] by auto
  then show ?thesis
    by (simp add: SetLimit_def ResetLimit_def applyLimit_nil)
qed

text \<open>Four limits on three blocks, on the small system: three queries, three write-backs.\<close>

lemma sim_SetLimit_run:
  "fst (SetLimit sim_os sim_net [] sim_limits sim_job) = None"
  by (simp add: sim_defs job_defs limit_defs zero_defs const_defs Let_def)

theorem applyLimit_round_trips_witness:
  "SetLimit sim_os sim_net [] sim_limits sim_job =
     (None, snd (SetLimit sim_os sim_net [] sim_limits sim_job)) \<and>
   round_trips True sim_limits (log (snd (SetLimit sim_os sim_net [] sim_limits sim_job))) \<and>
   length sim_limits = 4 \<and>
   length (writes_of (log (snd (SetLimit sim_os sim_net [] sim_limits sim_job)))) = 3"
proof -
  have run: "SetLimit sim_os sim_net [] sim_limits sim_job =
      (None, snd (SetLimit sim_os sim_net [] sim_limits sim_job))"
    using sim_SetLimit_run by (simp add: prod_eq_iff)
  have start: "log sim_job = []"
    by (simp add: sim_job_def)
  have rt: "round_trips True sim_limits (log (snd (SetLimit sim_os sim_net [] sim_limits sim_job)))"
    using applyLimit_round_trips
      [of sim_os sim_net "[]" sim_limits sim_job "snd (SetLimit sim_os sim_net [] sim_limits sim_job)"]
      run start by simp
  have m: "length (remdups (map resolveRequiredInfoClass sim_limits)) = 3"
    by (simp add: sim_limits_def limit_defs resolveRequiredInfoClass_def)
  have n: "length sim_limits = 4"
    by (simp add: sim_limits_def)
  from rt m have "length (writes_of (log (snd (SetLimit sim_os sim_net [] sim_limits sim_job)))) = 3"
    by (simp add: round_trips_def Let_def)
  with run rt n show ?thesis by blast
qed

subsection \<open>\<open>Create\<close>\<close>

lemma Limit_set_Handle: "Handle (Limit_set nl l j) = Handle j"
  by (cases l)
    (simp_all add: basicLimit_set_def uiRestriction_set_def cpuLimit_set_def split: prod.splits)

lemma Limit_reset_Handle: "Handle (Limit_reset nl l j) = Handle j"
  by (cases l) (simp_all add: basicLimit_reset_def uiRestriction_reset_def cpuLimit_reset_def)

lemma sync_Handle: "sync os fn cs s = (r, s') \<Longrightarrow> Handle (job s') = Handle (job s)"
proof (induction cs arbitrary: s)
  case Nil
  then show ?case by simp
next
  case (Cons c cs)
  then show ?case
    by (fastforce split: prod.splits option.splits simp: Let_def)
qed

lemma applyLimit_loop_Handle:
  "applyLimit_loop os nl b ls cs s = (r, cs', s') \<Longrightarrow> Handle (job s') = Handle (job s)"
proof (induction ls arbitrary: cs s)
  case Nil
  then show ?case by simp
next
  case (Cons l ls)
  let ?c = "resolveRequiredInfoClass l"
  show ?case
  proof (cases "?c \<in> cs")
    case True
    with Cons.prems
    have "applyLimit_loop os nl b ls (insert ?c cs) (merge_limit nl b l s) = (r, cs', s')"
      by (simp add: Let_def)
    from Cons.IH[OF this] show ?thesis
      by (simp add: merge_limit_def Limit_set_Handle Limit_reset_Handle)
  next
    case False
    obtain e s1 where q: "sync os QueryInfo [?c] s = (e, s1)"
      by (cases "sync os QueryInfo [?c] s")
    have h1: "Handle (job s1) = Handle (job s)"
      using sync_Handle[OF q] .
    show ?thesis
    proof (cases e)
      case None
      with Cons.prems False q
      have "applyLimit_loop os nl b ls (insert ?c cs) (merge_limit nl b l s1) = (r, cs', s')"
        by (simp add: Let_def)
      from Cons.IH[OF this] h1 show ?thesis
        by (simp add: merge_limit_def Limit_set_Handle Limit_reset_Handle)
    next
      case (Some a)
      with Cons.prems False q have "s' = s1"
        by (simp add: Let_def)
      with h1 show ?thesis by simp
    qed
  qed
qed

lemma applyLimit_Handle:
  assumes "applyLimit os nl order b ls s = (r, s')"
  shows "Handle (job s') = Handle (job s)"
proof -
  obtain e cs s1 where l: "applyLimit_loop os nl b ls {} s = (e, cs, s1)"
    by (cases "applyLimit_loop os nl b ls {} s") auto
  have h1: "Handle (job s1) = Handle (job s)"
    using applyLimit_loop_Handle[OF l] .
  show ?thesis
  proof (cases e)
    case None
    with l assms have "sync os SetInfo (map_range order cs) s1 = (r, s')"
      by (simp add: applyLimit_def)
    from sync_Handle[OF this] h1 show ?thesis by simp
  next
    case (Some a)
    with l assms have "s' = s1"
      by (simp add: applyLimit_def)
    with h1 show ?thesis by simp
  qed
qed

text \<open>
  C7: for every name and every non-empty list of limits, if creating the job gives the
  handle \<open>h\<close> and \<open>SetLimit\<close> on the new job then fails with \<open>e\<close>, \<open>Create\<close> returns
  \<open>e\<close> (no job, not the result of the close, which is dropped), and the last thing it
  did is close \<open>h\<close>: the log ends with that call and the system is in the state the
  close left. If creating the job fails, \<open>Create\<close> returns that error having done
  nothing else: no query, no merge, no write-back, no close.
\<close>

theorem Create_failed_limits_close:
  "(limits \<noteq> [] \<and> CreateJobObject os w name = (Inr h, w1) \<and>
    SetLimit os nl order limits
      \<lparr>job = \<lparr>Name = name, Handle = h, JobInfo = zero_JobInfo\<rparr>, world = w1,
       log = lg @ [CreateCall name]\<rparr> = (Some e, s2) \<longrightarrow>
      Create os nl order name limits w lg =
        (Inl e, snd (CloseHandle os (world s2) h), log s2 @ [CloseCall h])) \<and>
   (CreateJobObject os w name = (Inl e', w1') \<longrightarrow>
      Create os nl order name limits w lg = (Inl e', w1', lg @ [CreateCall name]))"
proof -
  have "Handle (job s2) = h"
    if "SetLimit os nl order limits
          \<lparr>job = \<lparr>Name = name, Handle = h, JobInfo = zero_JobInfo\<rparr>, world = w1,
           log = lg @ [CreateCall name]\<rparr> = (Some e, s2)"
    using applyLimit_Handle[OF that[unfolded SetLimit_def]] by simp
  then show ?thesis
    by (auto simp: Create_def JobObject_Close_def Let_def split: prod.splits)
qed

text \<open>
  On the small system: a hard cap of 20000 is refused at the write-back, after the job
  was created under the handle 1; and a name with a NUL byte creates nothing.
\<close>

lemma sim_Create_steps:
  "CreateJobObject sim_os sim_start [] =
     (Inr 1, \<lparr>open_handles = [1], stored = zero_JobInfo\<rparr>) \<and>
   fst (SetLimit sim_os sim_net [] [LimitBreakawayOK, WithCPUHardCapLimit 20000]
      \<lparr>job = \<lparr>Name = [], Handle = 1, JobInfo = zero_JobInfo\<rparr>,
       world = \<lparr>open_handles = [1], stored = zero_JobInfo\<rparr>, log = [] @ [CreateCall []]\<rparr>) =
     Some (SyscallError ''SetInformationJobObject'' (Errno 87)) \<and>
   CreateJobObject sim_os sim_start [CHR 0x00] = (Inl EINVAL, sim_start)"
  by (simp add: CreateJobObject_def sim_defs job_defs limit_defs zero_defs const_defs Let_def)

theorem Create_failed_limits_close_witness:
  "[LimitBreakawayOK, WithCPUHardCapLimit 20000] \<noteq> [] \<and>
   CreateJobObject sim_os sim_start [] =
     (Inr 1, \<lparr>open_handles = [1], stored = zero_JobInfo\<rparr>) \<and>
   fst (SetLimit sim_os sim_net [] [LimitBreakawayOK, WithCPUHardCapLimit 20000]
      \<lparr>job = \<lparr>Name = [], Handle = 1, JobInfo = zero_JobInfo\<rparr>,
       world = \<lparr>open_handles = [1], stored = zero_JobInfo\<rparr>, log = [] @ [CreateCall []]\<rparr>) =
     Some (SyscallError ''SetInformationJobObject'' (Errno 87)) \<and>
   fst (Create sim_os sim_net [] [] [LimitBreakawayOK, WithCPUHardCapLimit 20000] sim_start []) =
     Inl (SyscallError ''SetInformationJobObject'' (Errno 87)) \<and>
   last (snd (snd (Create sim_os sim_net [] []
      [LimitBreakawayOK, WithCPUHardCapLimit 20000] sim_start []))) = CloseCall 1 \<and>
   CreateJobObject sim_os sim_start [CHR 0x00] = (Inl EINVAL, sim_start) \<and>
   Create sim_os sim_net [] [CHR 0x00] [LimitBreakawayOK] sim_start [] =
     (Inl EINVAL, sim_start, [CreateCall [CHR 0x00]])"
proof -
  let ?ls = "[LimitBreakawayOK, WithCPUHardCapLimit 20000]"
  let ?s = "\<lparr>job = \<lparr>Name = [], Handle = 1, JobInfo = zero_JobInfo\<rparr>,
       world = \<lparr>open_handles = [1], stored = zero_JobInfo\<rparr>, log = [] @ [CreateCall []]\<rparr>"
  let ?e = "SyscallError ''SetInformationJobObject'' (Errno 87)"
  have run: "SetLimit sim_os sim_net [] ?ls ?s = (Some ?e, snd (SetLimit sim_os sim_net [] ?ls ?s))"
    using sim_Create_steps by (simp add: prod_eq_iff)
  have a: "Create sim_os sim_net [] [] ?ls sim_start [] =
      (Inl ?e, snd (CloseHandle sim_os (world (snd (SetLimit sim_os sim_net [] ?ls ?s))) 1),
       log (snd (SetLimit sim_os sim_net [] ?ls ?s)) @ [CloseCall 1])"
    using Create_failed_limits_close
      [where os = sim_os and nl = sim_net and order = "[]" and name = "[]" and limits = ?ls
         and w = sim_start and lg = "[]" and h = 1
         and ?w1.0 = "\<lparr>open_handles = [1], stored = zero_JobInfo\<rparr>" and e = ?e
         and ?s2.0 = "snd (SetLimit sim_os sim_net [] ?ls ?s)"]
      sim_Create_steps run by simp
  have b: "Create sim_os sim_net [] [CHR 0x00] [LimitBreakawayOK] sim_start [] =
      (Inl EINVAL, sim_start, [CreateCall [CHR 0x00]])"
    using Create_failed_limits_close
      [where os = sim_os and nl = sim_net and order = "[]" and name = "[CHR 0x00]"
         and limits = "[LimitBreakawayOK]" and w = sim_start and lg = "[]"
         and e' = EINVAL and w1' = sim_start]
      sim_Create_steps by simp
  from a b sim_Create_steps show ?thesis by simp
qed

subsection \<open>\<open>QueryCounters\<close>\<close>

text \<open>
  C2 does not hold of the code: four of the fourteen assignments of \<open>QueryCounters\<close>
  copy the wrong field. On the small system, where the accounting block of the job
  holds 1, 2, 3, 4 for the four times and 11 and 14 for the other-operation and
  other-transfer counts, the query succeeds, the cached block is the one the system
  holds, and the snapshot gets the total user time (1) in the place of the total kernel
  time (2) and of both times of this period (3, 4), and the other-operation count (11)
  in the place of the other-transfer count (14).
\<close>

theorem QueryCounters_copies_wrong_fields:
  "fst (QueryCounters sim_os zero_Counters sim_busy_job) = None \<and>
   AccountingInfo (JobInfo (job (snd (snd (QueryCounters sim_os zero_Counters sim_busy_job)))))
     = sim_accounting \<and>
   Counters.TotalUserTime (fst (snd (QueryCounters sim_os zero_Counters sim_busy_job))) = 1 \<and>
   Counters.TotalKernelTime (fst (snd (QueryCounters sim_os zero_Counters sim_busy_job))) = 1 \<and>
   TotalKernelTime (BasicAccounting sim_accounting) = 2 \<and>
   Counters.ThisPeriodTotalUserTime
     (fst (snd (QueryCounters sim_os zero_Counters sim_busy_job))) = 1 \<and>
   ThisPeriodTotalUserTime (BasicAccounting sim_accounting) = 3 \<and>
   Counters.ThisPeriodTotalKernelTime
     (fst (snd (QueryCounters sim_os zero_Counters sim_busy_job))) = 1 \<and>
   ThisPeriodTotalKernelTime (BasicAccounting sim_accounting) = 4 \<and>
   Counters.OtherTransferCount (fst (snd (QueryCounters sim_os zero_Counters sim_busy_job))) = 11 \<and>
   OtherTransferCount (IoCounters sim_accounting) = 14"
  by (simp add: QueryCounters_def sim_defs zero_defs zero_Counters_def Let_def)

text \<open>
  What \<open>QueryCounters\<close> does on every job and every system when the query succeeds:
  ten fields are the fields of the same name of the cached accounting block, four are
  not.
\<close>

lemma QueryCounters_fields:
  "QueryCounters os c s = (None, c', s') \<Longrightarrow>
     (let a = BasicAccounting (AccountingInfo (JobInfo (job s')));
          io = IoCounters (AccountingInfo (JobInfo (job s')))
      in Counters.TotalUserTime c' = TotalUserTime a \<and>
         Counters.TotalKernelTime c' = TotalUserTime a \<and>
         Counters.ThisPeriodTotalUserTime c' = TotalUserTime a \<and>
         Counters.ThisPeriodTotalKernelTime c' = TotalUserTime a \<and>
         Counters.TotalPageFaultCount c' = TotalPageFaultCount a \<and>
         Counters.TotalProcesses c' = TotalProcesses a \<and>
         Counters.ActiveProcesses c' = ActiveProcesses a \<and>
         Counters.TotalTerminatedProcesses c' = TotalTerminatedProcesses a \<and>
         Counters.ReadOperationCount c' = ReadOperationCount io \<and>
         Counters.WriteOperationCount c' = WriteOperationCount io \<and>
         Counters.OtherOperationCount c' = OtherOperationCount io \<and>
         Counters.ReadTransferCount c' = ReadTransferCount io \<and>
         Counters.WriteTransferCount c' = WriteTransferCount io \<and>
         Counters.OtherTransferCount c' = OtherOperationCount io)"
  by (auto simp: QueryCounters_def Let_def split: prod.splits option.splits)

subsection \<open>\<open>Subscription.Close\<close>\<close>

text \<open>
  C3, as stated, fails: \<open>Close\<close> closes the port handle first and stores the closed
  flag after it. On the small system the trace of a \<open>Close\<close> of a fresh subscription
  is: lock, close of the handle (it succeeds), store of the flag, unlock; after its
  second event the handle is closed and the flag is still false (and the mutex held).
\<close>

theorem Close_closes_handle_before_flag:
  "trace (snd (Subscription_Close sim_os sim_subscription)) =
     [MuLock, PortClose None, StoreClosed, MuUnlock] \<and>
   snapshots (False, False, False) (trace (snd (Subscription_Close sim_os sim_subscription))) =
     [(True, False, False), (True, True, False), (True, True, True), (False, True, True)]"
  by (simp add: sub_defs sim_defs)

text \<open>
  C3, amended: in \<open>Subscription.Close\<close>, when the subscription is not already closed,
  the port handle is closed first and the closed flag is set after it, and only if
  closing the handle succeeded (the ordering is: lock, close handle, set closed flag,
  unlock); both steps are taken with the mutex held, so at every point where the port
  handle is closed while the closed flag is still false the mutex is held by \<open>Close\<close>.
  (\<open>handlePortErr\<close> takes the same mutex before it reads the flag.)
\<close>

theorem Close_order:
  "\<not> closed (sub s) \<longrightarrow>
     (let r = fst (CloseHandle os (wld s) (Port (sub s)));
          tr = drop (length (trace s)) (trace (snd (Subscription_Close os s)))
      in tr = [MuLock, PortClose r] @ (if r = None then [StoreClosed] else []) @ [MuUnlock] \<and>
         closed (sub (snd (Subscription_Close os s))) = (r = None) \<and>
         (\<forall>(m, h, f) \<in> set (snapshots (False, False, False) tr). h \<and> \<not> f \<longrightarrow> m))"
  by (auto simp: Subscription_Close_def Let_def split: prod.splits option.splits)

theorem Close_order_witness:
  "\<not> closed (sub sim_subscription) \<and>
   fst (CloseHandle sim_os (wld sim_subscription) (Port (sub sim_subscription))) = None \<and>
   drop (length (trace sim_subscription))
     (trace (snd (Subscription_Close sim_os sim_subscription))) =
     [MuLock, PortClose None, StoreClosed, MuUnlock] \<and>
   closed (sub (snd (Subscription_Close sim_os sim_subscription)))"
proof -
  have a: "\<not> closed (sub sim_subscription)"
    by (simp add: sim_defs sub_defs)
  have b: "fst (CloseHandle sim_os (wld sim_subscription) (Port (sub sim_subscription))) = None"
    by (simp add: sim_defs sub_defs)
  from Close_order[of sim_subscription sim_os] a b show ?thesis
    by (simp add: Let_def)
qed

text \<open>
  C10: if the subscription is not closed and closing its port handle fails with \<open>e\<close>,
  \<open>Close\<close> returns \<open>e\<close> and leaves the subscription as it was, the closed flag still
  false (only the state of the system and the trace move on); the next \<open>Close\<close>
  therefore does not return at the test of the flag: it calls the close of the handle
  again and returns what that call gives.
\<close>

theorem Close_fails:
  "\<not> closed (sub s) \<and> CloseHandle os (wld s) (Port (sub s)) = (Some e, w') \<longrightarrow>
     Subscription_Close os s =
       (Some e, s\<lparr>wld := w', trace := trace s @ [MuLock, PortClose (Some e), MuUnlock]\<rparr>) \<and>
     sub (snd (Subscription_Close os s)) = sub s \<and>
     \<not> closed (sub (snd (Subscription_Close os s))) \<and>
     fst (Subscription_Close os (snd (Subscription_Close os s))) =
       fst (CloseHandle os w' (Port (sub s))) \<and>
     trace (snd (Subscription_Close os (snd (Subscription_Close os s)))) =
       trace (snd (Subscription_Close os s)) @
         [MuLock, PortClose (fst (CloseHandle os w' (Port (sub s))))] @
         (if fst (CloseHandle os w' (Port (sub s))) = None then [StoreClosed] else []) @
         [MuUnlock]"
  by (auto simp: Subscription_Close_def split: prod.splits option.splits)

text \<open>
  On the small system, a subscription whose port handle is no longer open (closed
  behind its back, as in \<open>TestNotifications_Error\<close>): both calls fail alike.
\<close>

theorem Close_fails_witness:
  "\<not> closed (sub (sim_subscription\<lparr>wld := sim_start\<rparr>)) \<and>
   CloseHandle sim_os (wld (sim_subscription\<lparr>wld := sim_start\<rparr>))
       (Port (sub (sim_subscription\<lparr>wld := sim_start\<rparr>))) = (Some (Errno 6), sim_start) \<and>
   fst (Subscription_Close sim_os (sim_subscription\<lparr>wld := sim_start\<rparr>)) = Some (Errno 6) \<and>
   fst (Subscription_Close sim_os
          (snd (Subscription_Close sim_os (sim_subscription\<lparr>wld := sim_start\<rparr>)))) =
     Some (Errno 6) \<and>
   trace (snd (Subscription_Close sim_os
          (snd (Subscription_Close sim_os (sim_subscription\<lparr>wld := sim_start\<rparr>))))) =
     [MuLock, PortClose (Some (Errno 6)), MuUnlock, MuLock, PortClose (Some (Errno 6)), MuUnlock]"
  using Close_fails[of "sim_subscription\<lparr>wld := sim_start\<rparr>" sim_os "Errno 6" sim_start]
  by (simp add: sim_defs sub_defs)

subsection \<open>The loop and its end\<close>

lemma notify_pass_error:
  assumes "NextMessage r = Inl e" "\<not> chan_closed (sink s)"
  shows "notify_pass r s =
     Exit (s\<lparr>sub := (if errors_Is e ErrAbandoned \<and> closed (sub s) then sub s
                     else (sub s)\<lparr>err := Some e\<rparr>),
             sink := (sink s)\<lparr>chan_closed := True\<rparr>,
             trace := trace s @ [MuLock] @
               (if errors_Is e ErrAbandoned \<and> closed (sub s) then [] else [StoreErr e]) @
               [MuUnlock, ChanClose]\<rparr>)"
  using assms by (simp add: notify_pass_def handlePortErr_def chan_close_def)

lemma notify_pass_message:
  assumes "NextMessage r = Inr m" "\<not> chan_closed (sink s)"
  shows "notify_pass r s =
     Next (s\<lparr>sink := (sink s)\<lparr>sent := sent (sink s) @ [m]\<rparr>, trace := trace s @ [ChanSend m]\<rparr>)"
  using assms by (simp add: notify_pass_def chan_send_def)

text \<open>Once the loop has returned, nothing stores an error any more.\<close>

lemma lifetime_Exited:
  "fst (lifetime os acts (Exited, s)) = Exited \<and>
   err (sub (snd (lifetime os acts (Exited, s)))) = err (sub s)"
proof (induction acts arbitrary: s)
  case Nil
  then show ?case by simp
next
  case (Cons a acts)
  show ?case
  proof (cases a)
    case (WaitReturns r)
    with Cons show ?thesis by simp
  next
    case CallClose
    have "err (sub (snd (Subscription_Close os s))) = err (sub s)"
      by (simp add: Subscription_Close_def split: prod.splits option.splits)
    with CallClose Cons[of "snd (Subscription_Close os s)"] show ?thesis by simp
  next
    case CallErr
    have "err (sub (snd (Subscription_Err s))) = err (sub s)"
      by (simp add: Subscription_Err_def)
    with CallErr Cons[of "snd (Subscription_Err s)"] show ?thesis by simp
  qed
qed

text \<open>
  C4: when a wait of the loop returns an error (\<open>NextMessage\<close> gives \<open>e\<close>), in whatever
  state \<open>s\<close> the subscription then is, with its sink open: the error is expected when
  it is the abandoned-wait error and the closed flag is true in \<open>s\<close>, and then nothing
  is stored; otherwise \<open>e\<close> is stored as the error of the subscription. The flag is
  read and the error stored between a lock and an unlock of the mutex. Either way the
  pass closes the sink and \<open>notify\<close> returns, whatever waits would have followed. And
  whatever is called afterwards, \<open>Err\<close> returns \<open>e\<close> when it was stored and what it
  would have returned before when it was not.
\<close>

theorem dequeue_error_classified:
  "NextMessage r = Inl e \<and> \<not> chan_closed (sink s) \<longrightarrow>
     (let expected = (errors_Is e ErrAbandoned \<and> closed (sub s));
          s' = s\<lparr>sub := (if expected then sub s else (sub s)\<lparr>err := Some e\<rparr>),
                 sink := (sink s)\<lparr>chan_closed := True\<rparr>,
                 trace := trace s @ [MuLock] @ (if expected then [] else [StoreErr e]) @
                            [MuUnlock, ChanClose]\<rparr>
      in notify_pass r s = Exit s' \<and>
         notify (r # rs) s = Returns s' \<and>
         lifetime os (WaitReturns r # acts) (Running, s) = lifetime os acts (Exited, s') \<and>
         fst (Subscription_Err (snd (lifetime os acts (Exited, s')))) =
           (if expected then err (sub s) else Some e))"
proof (intro impI)
  assume a: "NextMessage r = Inl e \<and> \<not> chan_closed (sink s)"
  show "(let expected = (errors_Is e ErrAbandoned \<and> closed (sub s));
          s' = s\<lparr>sub := (if expected then sub s else (sub s)\<lparr>err := Some e\<rparr>),
                 sink := (sink s)\<lparr>chan_closed := True\<rparr>,
                 trace := trace s @ [MuLock] @ (if expected then [] else [StoreErr e]) @
                            [MuUnlock, ChanClose]\<rparr>
      in notify_pass r s = Exit s' \<and>
         notify (r # rs) s = Returns s' \<and>
         lifetime os (WaitReturns r # acts) (Running, s) = lifetime os acts (Exited, s') \<and>
         fst (Subscription_Err (snd (lifetime os acts (Exited, s')))) =
           (if expected then err (sub s) else Some e))"
    using notify_pass_error[of r e s] a
    by (simp add: Let_def Subscription_Err_def lifetime_Exited)
qed

text \<open>
  On the small system: the abandoned wait that follows a \<open>Close\<close> stores nothing, and
  the invalid handle of \<open>TestNotifications_Error\<close> is stored and returned by \<open>Err\<close>,
  also after a later \<open>Close\<close>.
\<close>

theorem dequeue_error_classified_witness:
  "NextMessage (Inl (Errno 0x2df)) = Inl (SyscallError ''GetQueuedCompletionStatus'' (Errno 0x2df)) \<and>
   \<not> chan_closed (sink (snd (Subscription_Close sim_os sim_subscription))) \<and>
   errors_Is (SyscallError ''GetQueuedCompletionStatus'' (Errno 0x2df)) ErrAbandoned \<and>
   closed (sub (snd (Subscription_Close sim_os sim_subscription))) \<and>
   fst (Subscription_Err (snd (lifetime sim_os [WaitReturns (Inl (Errno 0x2df)), CallClose]
      (Running, snd (Subscription_Close sim_os sim_subscription))))) = None \<and>
   NextMessage (Inl (Errno 6)) = Inl (SyscallError ''GetQueuedCompletionStatus'' (Errno 6)) \<and>
   \<not> chan_closed (sink sim_subscription) \<and>
   fst (Subscription_Err (snd (lifetime sim_os [WaitReturns (Inl (Errno 6)), CallClose]
      (Running, sim_subscription)))) =
     Some (SyscallError ''GetQueuedCompletionStatus'' (Errno 6))"
  using dequeue_error_classified
      [where r = "Inl (Errno 0x2df)"
         and e = "SyscallError ''GetQueuedCompletionStatus'' (Errno 0x2df)"
         and s = "snd (Subscription_Close sim_os sim_subscription)"
         and os = sim_os and acts = "[CallClose]" and rs = "[]"]
    dequeue_error_classified
      [where r = "Inl (Errno 6)"
         and e = "SyscallError ''GetQueuedCompletionStatus'' (Errno 6)"
         and s = sim_subscription and os = sim_os and acts = "[CallClose]" and rs = "[]"]
  by (simp add: sim_defs sub_defs ErrAbandoned_def Let_def)

subsection \<open>The life of a subscription\<close>

lemma Close_inv: "life_inv (l, s) \<Longrightarrow> life_inv (l, snd (Subscription_Close os s))"
  by (auto simp: life_inv_def Subscription_Close_def split: prod.splits option.splits)

lemma Err_inv: "life_inv (l, s) \<Longrightarrow> life_inv (l, snd (Subscription_Err s))"
  by (auto simp: life_inv_def Subscription_Err_def)

lemma pass_inv:
  assumes "life_inv (Running, s)"
  shows "case notify_pass r s of
           Next s' \<Rightarrow> life_inv (Running, s')
         | Exit s' \<Rightarrow> life_inv (Exited, s')
         | PassPanics \<Rightarrow> False"
proof -
  from assms have o: "\<not> chan_closed (sink s)"
    by (simp add: life_inv_def)
  show ?thesis
  proof (cases "NextMessage r")
    case (Inl e)
    from notify_pass_error[OF Inl o] assms show ?thesis
      by (auto simp: life_inv_def)
  next
    case (Inr m)
    from notify_pass_message[OF Inr o] assms show ?thesis
      by (auto simp: life_inv_def)
  qed
qed

lemma lifetime_inv: "life_inv (l, s) \<Longrightarrow> life_inv (lifetime os acts (l, s))"
proof (induction acts arbitrary: l s)
  case Nil
  then show ?case by simp
next
  case (Cons a acts)
  show ?case
  proof (cases a)
    case (WaitReturns r)
    show ?thesis
    proof (cases l)
      case Running
      with Cons.prems pass_inv[of s r]
      have p: "case notify_pass r s of
                 Next s' \<Rightarrow> life_inv (Running, s')
               | Exit s' \<Rightarrow> life_inv (Exited, s')
               | PassPanics \<Rightarrow> False"
        by simp
      show ?thesis
      proof (cases "notify_pass r s")
        case (Next s')
        with p Running WaitReturns Cons.IH[of Running s'] show ?thesis by simp
      next
        case (Exit s')
        with p Running WaitReturns Cons.IH[of Exited s'] show ?thesis by simp
      next
        case PassPanics
        with p show ?thesis by simp
      qed
    next
      case Exited
      with WaitReturns Cons show ?thesis by simp
    next
      case Panicked
      with WaitReturns Cons show ?thesis by simp
    qed
  next
    case CallClose
    with Cons.IH[OF Close_inv[OF Cons.prems]] show ?thesis by simp
  next
    case CallErr
    with Cons.IH[OF Err_inv[OF Cons.prems]] show ?thesis by simp
  qed
qed

lemma fresh_inv: "life_inv (Running, fresh_subscription p w)"
  by (simp add: life_inv_def fresh_subscription_def)

text \<open>Nothing resets the closed flag.\<close>

lemma closed_stable: "closed (sub s) \<Longrightarrow> closed (sub (snd (lifetime os acts (l, s))))"
proof (induction acts arbitrary: l s)
  case Nil
  then show ?case by simp
next
  case (Cons a acts)
  show ?case
  proof (cases a)
    case (WaitReturns r)
    show ?thesis
    proof (cases l)
      case Running
      have c: "closed (sub s')"
        if "notify_pass r s = Next s' \<or> notify_pass r s = Exit s'" for s'
        using that Cons.prems
        by (auto simp: notify_pass_def handlePortErr_def Let_def
            split: sum.splits option.splits if_splits)
      show ?thesis
      proof (cases "notify_pass r s")
        case (Next s')
        with c[of s'] Running WaitReturns Cons.IH[of s' Running] show ?thesis by simp
      next
        case (Exit s')
        with c[of s'] Running WaitReturns Cons.IH[of s' Exited] show ?thesis by simp
      next
        case PassPanics
        with Running WaitReturns Cons.prems show ?thesis by simp
      qed
    next
      case Exited
      with WaitReturns Cons show ?thesis by simp
    next
      case Panicked
      with WaitReturns Cons show ?thesis by simp
    qed
  next
    case CallClose
    have "closed (sub (snd (Subscription_Close os s)))"
      using Cons.prems by (simp add: Subscription_Close_def)
    from Cons.IH[OF this] CallClose show ?thesis by simp
  next
    case CallErr
    have "closed (sub (snd (Subscription_Err s)))"
      using Cons.prems by (simp add: Subscription_Err_def)
    from Cons.IH[OF this] CallErr show ?thesis by simp
  qed
qed

lemma Close_success_closed: "Subscription_Close os s = (None, s1) \<Longrightarrow> closed (sub s1)"
  by (auto simp: Subscription_Close_def split: prod.splits option.splits if_splits)

lemma Close_when_closed:
  "closed (sub s) \<Longrightarrow>
     Subscription_Close os s = (None, s\<lparr>trace := trace s @ [MuLock, MuUnlock]\<rparr>)"
  by (simp add: Subscription_Close_def)

text \<open>
  C8: \<open>Close\<close> is idempotent: once a \<open>Close\<close> has returned success, whatever happens next
  (any passes of the loop, any calls of \<open>Close\<close> and \<open>Err\<close>, from whatever state \<open>l\<close> of
  the loop), a \<open>Close\<close> returns success and does nothing but take and release the
  mutex: it does not close the port handle again. \<open>Close\<close> never touches the sink: it
  leaves the channel as it is and none of its events is a send or a close of it. And
  over the life of a subscription, from \<open>Notify\<close> on and through any sequence of steps,
  the goroutine of the loop does not panic, the sink is closed exactly when the loop has
  returned, and the events on the sink are the sends followed by exactly one close, the
  last event of the loop, once it has returned (and no close before that); the port
  handle is closed with success at most once.
\<close>

theorem Close_idempotent_sink_closed_once:
  "(Subscription_Close os s0 = (None, s1) \<longrightarrow>
      Subscription_Close os (snd (lifetime os acts (l, s1))) =
        (None, (snd (lifetime os acts (l, s1)))
                 \<lparr>trace := trace (snd (lifetime os acts (l, s1))) @ [MuLock, MuUnlock]\<rparr>)) \<and>
   sink (snd (Subscription_Close os s0)) = sink s0 \<and>
   filter is_sink_event (drop (length (trace s0)) (trace (snd (Subscription_Close os s0)))) = [] \<and>
   (let (l', s) = lifetime os acts (Running, fresh_subscription p w) in
      l' \<noteq> Panicked \<and>
      chan_closed (sink s) = (l' = Exited) \<and>
      filter is_sink_event (trace s) =
        map ChanSend (sent (sink s)) @ (if l' = Exited then [ChanClose] else []) \<and>
      length (filter (\<lambda>e. e = PortClose None) (trace s)) = (if closed (sub s) then 1 else 0))"
proof -
  have 1: "Subscription_Close os s0 = (None, s1) \<longrightarrow>
      Subscription_Close os (snd (lifetime os acts (l, s1))) =
        (None, (snd (lifetime os acts (l, s1)))
                 \<lparr>trace := trace (snd (lifetime os acts (l, s1))) @ [MuLock, MuUnlock]\<rparr>)"
    using Close_success_closed closed_stable Close_when_closed by blast
  have 2: "sink (snd (Subscription_Close os s0)) = sink s0"
    by (simp add: Subscription_Close_def split: prod.splits option.splits)
  have 3: "filter is_sink_event
      (drop (length (trace s0)) (trace (snd (Subscription_Close os s0)))) = []"
    by (simp add: Subscription_Close_def split: prod.splits option.splits)
  have 4: "life_inv (lifetime os acts (Running, fresh_subscription p w))"
    using lifetime_inv[OF fresh_inv] .
  from 1 2 3 4 show ?thesis
    by (simp add: life_inv_def split: prod.splits)
qed

text \<open>
  On the small system: a message, a first \<open>Close\<close>, the abandoned wait, then two more
  calls of \<open>Close\<close>. The first \<open>Close\<close> succeeds, and so does the one after all of it.
\<close>

theorem Close_idempotent_sink_closed_once_witness:
  "Subscription_Close sim_os sim_subscription =
     (None, snd (Subscription_Close sim_os sim_subscription)) \<and>
   fst (Subscription_Close sim_os (snd (lifetime sim_os
      [WaitReturns (Inr (6, 1234)), WaitReturns (Inl (Errno 0x2df)), CallClose, CallClose]
      (Running, snd (Subscription_Close sim_os sim_subscription))))) = None \<and>
   filter is_sink_event (trace (snd (lifetime sim_os
      [WaitReturns (Inr (6, 1234)), WaitReturns (Inl (Errno 0x2df)), CallClose, CallClose]
      (Running, snd (Subscription_Close sim_os sim_subscription))))) =
     [ChanSend \<lparr>Type = ''NewProcess'', PID = 1234\<rparr>, ChanClose]"
  using Close_idempotent_sink_closed_once
      [where os = sim_os and ?s0.0 = sim_subscription
         and ?s1.0 = "snd (Subscription_Close sim_os sim_subscription)"
         and l = Running
         and acts = "[WaitReturns (Inr (6, 1234)), WaitReturns (Inl (Errno 0x2df)),
                      CallClose, CallClose]"]
  by (simp add: sim_defs sub_defs ErrAbandoned_def Let_def resolveNotificationType_def
      notificationTypes_def)

subsection \<open>A system that reads back what was written\<close>


lemma read_write_same: "block_class b = c \<Longrightarrow> infoPtr_read c (infoPtr_write c b ji) = b"
  by (cases c; cases b) simp_all

lemma read_write_other: "c' \<noteq> c \<Longrightarrow> infoPtr_read c' (infoPtr_write c b ji) = infoPtr_read c' ji"
  by (cases c; cases b; cases c') simp_all

lemma write_read: "infoPtr_write c (infoPtr_read c ji) ji = ji"
  by (cases c) simp_all

lemma class_read: "block_class (infoPtr_read c ji) = c"
  by (cases c) simp_all

lemma reads_backD1:
  "reads_back os \<Longrightarrow> queryInformationJobObject os w h c = (r, w') \<Longrightarrow> w' = w \<and> (\<forall>b. r = Inr b \<longrightarrow> block_class b = c)"
  unfolding reads_back_def by (metis fst_conv snd_conv)

lemma reads_backD2:
  "reads_back os \<Longrightarrow> setInformationJobObject os w h c b = (None, w') \<Longrightarrow>
     (\<forall>b'. fst (queryInformationJobObject os w' h c) = Inr b' \<longrightarrow> b' = b) \<and>
     (\<forall>c'. c' \<noteq> c \<longrightarrow> fst (queryInformationJobObject os w' h c') = fst (queryInformationJobObject os w h c'))"
  unfolding reads_back_def by blast

lemma sync_query_step:
  assumes "reads_back os" "sync os QueryInfo (c # cs) s = (None, s')"
  shows "\<exists>b. fst (queryInformationJobObject os (world s) (Handle (job s)) c) = Inr b \<and> block_class b = c \<and>
     sync os QueryInfo cs (s\<lparr>job := JobInfo_update (infoPtr_write c b) (job s), log := log s @ [Sync QueryInfo c]\<rparr>) = (None, s')"
proof -
  obtain r w' where q: "queryInformationJobObject os (world s) (Handle (job s)) c = (r, w')"
    by (cases "queryInformationJobObject os (world s) (Handle (job s)) c")
  from reads_backD1[OF assms(1) q] have w: "w' = world s" and cl: "\<forall>b. r = Inr b \<longrightarrow> block_class b = c" by auto
  show ?thesis
  proof (cases r)
    case (Inl e)
    with assms(2) q show ?thesis by (simp add: Let_def)
  next
    case (Inr b)
    with assms(2) q w cl show ?thesis by (simp add: Let_def)
  qed
qed

lemma sync_query_reads:
  assumes "reads_back os"
  shows "sync os QueryInfo cs s = (None, s') \<Longrightarrow>
     world s' = world s \<and> Handle (job s') = Handle (job s) \<and>
     (\<forall>c \<in> set cs. fst (queryInformationJobObject os (world s) (Handle (job s)) c) = Inr (infoPtr_read c (JobInfo (job s')))) \<and>
     (\<forall>c. c \<notin> set cs \<longrightarrow> infoPtr_read c (JobInfo (job s')) = infoPtr_read c (JobInfo (job s)))"
proof (induction cs arbitrary: s)
  case Nil then show ?case by simp
next
  case (Cons c cs)
  from sync_query_step[OF assms Cons.prems] obtain b where
    b: "fst (queryInformationJobObject os (world s) (Handle (job s)) c) = Inr b" "block_class b = c"
    and rest: "sync os QueryInfo cs (s\<lparr>job := JobInfo_update (infoPtr_write c b) (job s), log := log s @ [Sync QueryInfo c]\<rparr>) = (None, s')"
    by blast
  let ?s1 = "s\<lparr>job := JobInfo_update (infoPtr_write c b) (job s), log := log s @ [Sync QueryInfo c]\<rparr>"
  from Cons.IH[OF rest] have ih:
    "world s' = world s" "Handle (job s') = Handle (job s)"
    "\<forall>c' \<in> set cs. fst (queryInformationJobObject os (world s) (Handle (job s)) c') = Inr (infoPtr_read c' (JobInfo (job s')))"
    "\<forall>c'. c' \<notin> set cs \<longrightarrow> infoPtr_read c' (JobInfo (job s')) = infoPtr_read c' (infoPtr_write c b (JobInfo (job s)))"
    by simp_all
  have "fst (queryInformationJobObject os (world s) (Handle (job s)) c) = Inr (infoPtr_read c (JobInfo (job s')))"
  proof (cases "c \<in> set cs")
    case True with ih(3) show ?thesis by blast
  next
    case False with ih(4) b read_write_same show ?thesis by simp
  qed
  moreover have "\<forall>c'. c' \<notin> set (c # cs) \<longrightarrow> infoPtr_read c' (JobInfo (job s')) = infoPtr_read c' (JobInfo (job s))"
    using ih(4) read_write_other by simp
  ultimately show ?case using ih by simp
qed

lemma sync_set_step:
  assumes "sync os SetInfo (c # cs) s = (None, s')"
  shows "\<exists>w'. setInformationJobObject os (world s) (Handle (job s)) c (infoPtr_read c (JobInfo (job s))) = (None, w') \<and>
     sync os SetInfo cs (s\<lparr>world := w', log := log s @ [Sync SetInfo c]\<rparr>) = (None, s')"
proof -
  obtain r w' where q: "setInformationJobObject os (world s) (Handle (job s)) c (infoPtr_read c (JobInfo (job s))) = (r, w')"
    by (cases "setInformationJobObject os (world s) (Handle (job s)) c (infoPtr_read c (JobInfo (job s)))")
  have j: "JobInfo_update (infoPtr_write c (infoPtr_read c (JobInfo (job s)))) (job s) = job s"
    by (simp add: write_read)
  show ?thesis
  proof (cases r)
    case None
    with assms q j show ?thesis by (simp add: Let_def)
  next
    case (Some e)
    with assms q show ?thesis by (simp add: Let_def)
  qed
qed

lemma sync_set_writes:
  assumes "reads_back os"
  shows "sync os SetInfo cs s = (None, s') \<Longrightarrow> distinct cs \<Longrightarrow>
     job s' = job s \<and>
     (\<forall>c \<in> set cs. \<forall>b. fst (queryInformationJobObject os (world s') (Handle (job s)) c) = Inr b \<longrightarrow> b = infoPtr_read c (JobInfo (job s))) \<and>
     (\<forall>c. c \<notin> set cs \<longrightarrow> fst (queryInformationJobObject os (world s') (Handle (job s)) c) = fst (queryInformationJobObject os (world s) (Handle (job s)) c))"
proof (induction cs arbitrary: s)
  case Nil then show ?case by simp
next
  case (Cons c cs)
  from sync_set_step[OF Cons.prems(1)] obtain w' where
    w: "setInformationJobObject os (world s) (Handle (job s)) c (infoPtr_read c (JobInfo (job s))) = (None, w')"
    and rest: "sync os SetInfo cs (s\<lparr>world := w', log := log s @ [Sync SetInfo c]\<rparr>) = (None, s')" by blast
  from Cons.prems(2) have d: "distinct cs" "c \<notin> set cs" by auto
  from Cons.IH[OF rest d(1)] have ih:
    "job s' = job s"
    "\<forall>c' \<in> set cs. \<forall>b. fst (queryInformationJobObject os (world s') (Handle (job s)) c') = Inr b \<longrightarrow> b = infoPtr_read c' (JobInfo (job s))"
    "\<forall>c'. c' \<notin> set cs \<longrightarrow> fst (queryInformationJobObject os (world s') (Handle (job s)) c') = fst (queryInformationJobObject os w' (Handle (job s)) c')"
    by simp_all
  from reads_backD2[OF assms w] have law:
    "\<forall>b'. fst (queryInformationJobObject os w' (Handle (job s)) c) = Inr b' \<longrightarrow> b' = infoPtr_read c (JobInfo (job s))"
    "\<forall>c'. c' \<noteq> c \<longrightarrow> fst (queryInformationJobObject os w' (Handle (job s)) c') = fst (queryInformationJobObject os (world s) (Handle (job s)) c')"
    by auto
  show ?case using ih law d by auto
qed

lemma limitInfoClassesSet_eq:
  "limitInfoClassesSet j = filter (\<lambda>c. 0 < block_flags (infoPtr_read c (JobInfo j))) limit_classes"
  by (simp add: limitInfoClassesSet_def limit_classes_def)

lemma zero_flags: "block_flags (infoPtr_read c zero_JobInfo) = 0"
  by (cases c) (simp_all add: zero_defs)

lemma QueryLimits_eq: "QueryLimits os s = sync os QueryInfo limit_classes s"
  by (simp add: QueryLimits_def limit_classes_def)

lemma HasLimits_after_reset:
  assumes law: "reads_back os" and r: "ResetLimits os s = (None, s')"
  shows "fst (fst (HasLimits os s')) = False"
proof -
  from r obtain q where q: "QueryLimits os s = (None, q)"
    and w: "sync os SetInfo (limitInfoClassesSet (job q)) (q\<lparr>job := (job q)\<lparr>JobInfo := zero_JobInfo\<rparr>\<rparr>) = (None, s')"
    by (auto simp: ResetLimits_def Let_def split: prod.splits option.splits)
  let ?z = "q\<lparr>job := (job q)\<lparr>JobInfo := zero_JobInfo\<rparr>\<rparr>"
  let ?h = "Handle (job s)"
  from sync_query_reads[OF law q[unfolded QueryLimits_eq]] have qs:
    "world q = world s" "Handle (job q) = ?h"
    "\<forall>c \<in> set limit_classes. fst (queryInformationJobObject os (world s) ?h c) = Inr (infoPtr_read c (JobInfo (job q)))"
    by auto
  have dist: "distinct (limitInfoClassesSet (job q))"
    by (simp add: limitInfoClassesSet_eq limit_classes_def)
  from sync_set_writes[OF law w dist] qs have ws:
    "job s' = (job q)\<lparr>JobInfo := zero_JobInfo\<rparr>"
    "\<forall>c \<in> set (limitInfoClassesSet (job q)). \<forall>b. fst (queryInformationJobObject os (world s') ?h c) = Inr b \<longrightarrow> b = infoPtr_read c zero_JobInfo"
    "\<forall>c. c \<notin> set (limitInfoClassesSet (job q)) \<longrightarrow> fst (queryInformationJobObject os (world s') ?h c) = fst (queryInformationJobObject os (world s) ?h c)"
    by simp_all
  have hs: "Handle (job s') = ?h" using ws(1) qs(2) by simp
  show ?thesis
  proof (cases "QueryLimits os s'")
    case (Pair e s'')
    show ?thesis
    proof (cases e)
      case (Some a)
      with Pair show ?thesis by (simp add: HasLimits_def)
    next
      case None
      from sync_query_reads[OF law Pair[unfolded None QueryLimits_eq]] hs have rs:
        "\<forall>c \<in> set limit_classes. fst (queryInformationJobObject os (world s') ?h c) = Inr (infoPtr_read c (JobInfo (job s'')))"
        by auto
      have "block_flags (infoPtr_read c (JobInfo (job s''))) = 0" if c: "c \<in> set limit_classes" for c
      proof (cases "c \<in> set (limitInfoClassesSet (job q))")
        case True
        with ws(2) rs c have "infoPtr_read c (JobInfo (job s'')) = infoPtr_read c zero_JobInfo" by blast
        then show ?thesis by (simp add: zero_flags)
      next
        case False
        with ws(3) rs qs(3) c have "infoPtr_read c (JobInfo (job s'')) = infoPtr_read c (JobInfo (job q))"
          by (metis sum.inject(2))
        moreover from False c have "\<not> 0 < block_flags (infoPtr_read c (JobInfo (job q)))"
          by (simp add: limitInfoClassesSet_eq)
        ultimately show ?thesis by (simp add: word_greater_zero_iff)
      qed
      then have "limitInfoClassesSet (job s'') = []"
        by (simp add: limitInfoClassesSet_eq filter_empty_conv)
      with Pair None show ?thesis by (simp add: HasLimits_def)
    qed
  qed
qed

lemma sync_set_job: "sync os SetInfo cs s = (r, s') \<Longrightarrow> job s' = job s"
proof (induction cs arbitrary: s)
  case Nil
  then show ?case by simp
next
  case (Cons c cs)
  obtain e w' where q:
    "setInformationJobObject os (world s) (Handle (job s)) c (infoPtr_read c (JobInfo (job s))) = (e, w')"
    by (cases "setInformationJobObject os (world s) (Handle (job s)) c (infoPtr_read c (JobInfo (job s)))")
  have j: "JobInfo_update (infoPtr_write c (infoPtr_read c (JobInfo (job s)))) (job s) = job s"
    by (simp add: write_read)
  show ?case
  proof (cases e)
    case None
    with Cons.prems q j
    have "sync os SetInfo cs (s\<lparr>world := w', log := log s @ [Sync SetInfo c]\<rparr>) = (r, s')"
      by (simp add: Let_def)
    from Cons.IH[OF this] show ?thesis by simp
  next
    case (Some a)
    with Cons.prems q j have "s' = s\<lparr>world := w', log := log s @ [Sync SetInfo c]\<rparr>"
      by (simp add: Let_def)
    then show ?thesis by simp
  qed
qed



lemma sim_reads_back: "reads_back sim_os"
proof -
  have q: "queryInformationJobObject sim_os w h c =
      (if h = 1 \<and> h \<in> set (open_handles w) then (Inr (infoPtr_read c (stored w)), w) else (Inl 6, w))"
    for w h c by (simp add: sim_os_def)
  have st: "setInformationJobObject sim_os w h c b =
      (if h = 1 \<and> h \<in> set (open_handles w) then
          (if sim_rejects c b then (Some 87, w)
           else (None, w\<lparr>stored := infoPtr_write c b (stored w)\<rparr>))
        else (Some 6, w))" for w h c b by (simp add: sim_os_def)
  have r: "block_class b = c" if "\<not> sim_rejects c b" for c b
    using that by (simp add: sim_rejects_def)
  show ?thesis
    unfolding reads_back_def q st
    by (auto simp: class_read read_write_same read_write_other r split: if_splits)
qed


subsection \<open>\<open>ResetLimits\<close>\<close>

text \<open>
  C6, as stated, fails on a call the system refuses: on a handle that is not open the
  first query fails, \<open>ResetLimits\<close> returns that error at once, and the other three
  blocks are never queried (nor anything zeroed or written back).
\<close>

theorem ResetLimits_failed_query_stops:
  "fst (ResetLimits sim_os (sim_limited_job\<lparr>world := sim_start\<rparr>)) =
     Some (SyscallError ''QueryInformationJobObject'' (Errno 6)) \<and>
   log (snd (ResetLimits sim_os (sim_limited_job\<lparr>world := sim_start\<rparr>))) =
     [Sync QueryInfo JobObjectExtendedLimitInformation]"
  by (simp add: ResetLimits_def QueryLimits_def sim_limited_job_def sim_defs zero_defs Let_def)


text \<open>
  C6, amended: when \<open>ResetLimits\<close> returns success (none of its queries and
  write-backs was refused), it has first queried every limit block (extended limits,
  user-interface restrictions, CPU rate, network rate, in this order), then zeroed the
  whole cached \<open>JobInfo\<close>, and then written back exactly the blocks that were non-empty
  after the queries and before the zeroing, in the same order, where a block is
  non-empty when its flag field is above zero (\<open>LimitFlags\<close>, \<open>UIRestrictionsClass\<close>,
  the \<open>ControlFlags\<close> of the CPU block, the \<open>ControlFlags\<close> of the network block); the
  blocks that were empty are not written back, and the cache is left zero. On a system
  that reads back what was written, \<open>HasLimits\<close> after it reports false.
\<close>

theorem ResetLimits_writes_nonempty_blocks:
  "ResetLimits os s = (None, s') \<longrightarrow>
     fst (QueryLimits os s) = None \<and>
     log s' = log s @ map (Sync QueryInfo) limit_classes @
       map (Sync SetInfo)
         (filter (\<lambda>c. 0 < block_flags (infoPtr_read c (JobInfo (job (snd (QueryLimits os s))))))
            limit_classes) \<and>
     JobInfo (job s') = zero_JobInfo \<and>
     (reads_back os \<longrightarrow> fst (fst (HasLimits os s')) = False)"
proof (intro impI)
  assume r: "ResetLimits os s = (None, s')"
  then obtain q where q: "QueryLimits os s = (None, q)"
    and w: "sync os SetInfo (limitInfoClassesSet (job q)) (q\<lparr>job := (job q)\<lparr>JobInfo := zero_JobInfo\<rparr>\<rparr>) = (None, s')"
    by (auto simp: ResetLimits_def Let_def split: prod.splits option.splits)
  have l1: "log q = log s @ map (Sync QueryInfo) limit_classes"
    using sync_ok_log[OF q[unfolded QueryLimits_eq]] .
  have l2: "log s' = log q @ map (Sync SetInfo) (limitInfoClassesSet (job q))"
    using sync_ok_log[OF w] by simp
  have j: "JobInfo (job s') = zero_JobInfo"
    using sync_set_job[OF w] by simp
  from q l1 l2 j HasLimits_after_reset[OF _ r]
  show "fst (QueryLimits os s) = None \<and>
     log s' = log s @ map (Sync QueryInfo) limit_classes @
       map (Sync SetInfo)
         (filter (\<lambda>c. 0 < block_flags (infoPtr_read c (JobInfo (job (snd (QueryLimits os s))))))
            limit_classes) \<and>
     JobInfo (job s') = zero_JobInfo \<and>
     (reads_back os \<longrightarrow> fst (fst (HasLimits os s')) = False)"
    by (simp add: limitInfoClassesSet_eq)
qed



lemma sim_ResetLimits_run:
  "fst (ResetLimits sim_os sim_limited_job) = None"
  by (simp add: ResetLimits_def QueryLimits_def limitInfoClassesSet_def sim_limited_job_def sim_defs zero_defs cpu_consts Let_def)

theorem ResetLimits_writes_nonempty_blocks_witness:
  "ResetLimits sim_os sim_limited_job = (None, snd (ResetLimits sim_os sim_limited_job)) \<and>
   reads_back sim_os \<and>
   log (snd (ResetLimits sim_os sim_limited_job)) =
     [Sync QueryInfo JobObjectExtendedLimitInformation, Sync QueryInfo JobObjectBasicUIRestrictions,
      Sync QueryInfo JobObjectCpuRateControlInformation, Sync QueryInfo JobObjectNetRateControlInformation,
      Sync SetInfo JobObjectBasicUIRestrictions, Sync SetInfo JobObjectCpuRateControlInformation] \<and>
   fst (fst (HasLimits sim_os (snd (ResetLimits sim_os sim_limited_job)))) = False"
proof -
  have run: "ResetLimits sim_os sim_limited_job = (None, snd (ResetLimits sim_os sim_limited_job))"
    using sim_ResetLimits_run by (simp add: prod_eq_iff)
  have lg: "log (snd (ResetLimits sim_os sim_limited_job)) =
     [Sync QueryInfo JobObjectExtendedLimitInformation, Sync QueryInfo JobObjectBasicUIRestrictions,
      Sync QueryInfo JobObjectCpuRateControlInformation, Sync QueryInfo JobObjectNetRateControlInformation,
      Sync SetInfo JobObjectBasicUIRestrictions, Sync SetInfo JobObjectCpuRateControlInformation]"
    by (simp add: ResetLimits_def QueryLimits_def limitInfoClassesSet_def sim_limited_job_def sim_defs zero_defs cpu_consts Let_def)
  from ResetLimits_writes_nonempty_blocks[of sim_os sim_limited_job "snd (ResetLimits sim_os sim_limited_job)"]
    run sim_reads_back
  have "fst (fst (HasLimits sim_os (snd (ResetLimits sim_os sim_limited_job)))) = False"
    by blast
  with run lg sim_reads_back show ?thesis by blast
qed


subsection \<open>Flag limits\<close>















end
